theory Spec2Isabelle
  imports Complex_Main
begin

section \<open>Restaurant finance: CSV ingestion and KPI aggregation\<close>

text \<open>
  A shallow embedding of the Go backend: the row parser and validator
  (\<^verbatim>\<open>internal/imports/parsers.go\<close>), the ingestion pipeline
  (\<^verbatim>\<open>internal/imports/pipeline.go\<close>) and the aggregation worker
  (\<^verbatim>\<open>cmd/worker/aggregates.go\<close>). Go structs are records, Go maps are HOL maps,
  database tables are lists of records held in one state record, and every SQL statement
  the Go code sends is a function on that state.
\<close>

subsection \<open>Strings and the Go standard library\<close>

text \<open>
  Go strings are byte strings; \<^typ>\<open>string\<close> is a list of 8-bit characters.
  \<^verbatim>\<open>strings.TrimSpace\<close> removes the leading and the trailing white space as Unicode
  defines it: the six ASCII characters (space, tab, line feed, vertical tab, form feed,
  carriage return) and, in their UTF-8 encoding, U+0085 and U+00A0 (two bytes), U+1680,
  U+2000 to U+200A, U+2028, U+2029, U+202F, U+205F and U+3000 (three bytes). A byte that
  starts no such encoding ends the trimming, as a rune that is no white space does.
\<close>

definition isSpace :: "char \<Rightarrow> bool" where
  "isSpace c = (c = CHR '' '' \<or> c = CHR 0x09 \<or> c = CHR 0x0A \<or> c = CHR 0x0B
                \<or> c = CHR 0x0C \<or> c = CHR 0x0D)"

definition isSpace2 :: "char \<Rightarrow> char \<Rightarrow> bool" where
  "isSpace2 a b = (a = CHR 0xC2 \<and> (b = CHR 0x85 \<or> b = CHR 0xA0))"

definition isSpace3 :: "char \<Rightarrow> char \<Rightarrow> char \<Rightarrow> bool" where
  "isSpace3 a b c =
     ((a = CHR 0xE1 \<and> b = CHR 0x9A \<and> c = CHR 0x80)
      \<or> (a = CHR 0xE2 \<and> b = CHR 0x80
          \<and> (((0x80::nat) \<le> of_char c \<and> of_char c \<le> (0x8A::nat))
              \<or> c = CHR 0xA8 \<or> c = CHR 0xA9 \<or> c = CHR 0xAF))
      \<or> (a = CHR 0xE2 \<and> b = CHR 0x81 \<and> c = CHR 0x9F)
      \<or> (a = CHR 0xE3 \<and> b = CHR 0x80 \<and> c = CHR 0x80))"

fun TrimLeft :: "string \<Rightarrow> string" where
  "TrimLeft (a # b # c # s) =
     (if isSpace a then TrimLeft (b # c # s)
      else if isSpace2 a b then TrimLeft (c # s)
      else if isSpace3 a b c then TrimLeft s
      else a # b # c # s)"
| "TrimLeft [a, b] = (if isSpace a then TrimLeft [b] else if isSpace2 a b then [] else [a, b])"
| "TrimLeft [a] = (if isSpace a then [] else [a])"
| "TrimLeft [] = []"

text \<open>The same from the end, on the reversed string.\<close>

fun TrimRightRev :: "string \<Rightarrow> string" where
  "TrimRightRev (c # b # a # s) =
     (if isSpace c then TrimRightRev (b # a # s)
      else if isSpace2 b c then TrimRightRev (a # s)
      else if isSpace3 a b c then TrimRightRev s
      else c # b # a # s)"
| "TrimRightRev [c, b] =
     (if isSpace c then TrimRightRev [b] else if isSpace2 b c then [] else [c, b])"
| "TrimRightRev [c] = (if isSpace c then [] else [c])"
| "TrimRightRev [] = []"

definition TrimSpace :: "string \<Rightarrow> string" where
  "TrimSpace s = rev (TrimRightRev (rev (TrimLeft s)))"

text \<open>\<^verbatim>\<open>strings.ReplaceAll(s, c, "")\<close> for a one-character \<^verbatim>\<open>c\<close>.\<close>

definition ReplaceAll_empty :: "string \<Rightarrow> char \<Rightarrow> string" where
  "ReplaceAll_empty s c = filter (\<lambda>x. x \<noteq> c) s"

text \<open>\<^verbatim>\<open>fmt.Sprintf("%d", n)\<close> for a non-negative \<^verbatim>\<open>n\<close>.\<close>

function itoa :: "nat \<Rightarrow> string" where
  "itoa n = (if n < 10 then [char_of (48 + n)] else itoa (n div 10) @ [char_of (48 + n mod 10)])"
  by pat_completeness auto
termination
  by (relation "measure id") auto

declare itoa.simps [simp del]

text \<open>
  The library functions the code calls are parameters of the model:
  \<^verbatim>\<open>strconv.ParseFloat(s, 64)\<close> (the amount as a rational; \<open>None\<close> is the error),
  \<^verbatim>\<open>time.Parse(layout, value)\<close> (the instant in seconds since the epoch, a time-only
  layout giving the clock time on a fixed day; \<open>None\<close> is the error), the hexadecimal
  SHA-256 digest of a byte string, \<^verbatim>\<open>strings.ToLower\<close> (the Unicode lower case of a
  string) and the \<^verbatim>\<open>LOWER\<close> function of the database, whose result depends on the
  locale of the database.
\<close>

record golib =
  ParseFloat :: "string \<Rightarrow> rat option"
  time_Parse :: "string \<Rightarrow> string \<Rightarrow> int option"
  sha256_hex :: "string \<Rightarrow> string"
  strings_ToLower :: "string \<Rightarrow> string"
  sql_LOWER :: "string \<Rightarrow> string"

subsection \<open>Parsed rows and mapping profiles\<close>

text \<open>
  A value of Go's \<^verbatim>\<open>interface{}\<close> in \<^verbatim>\<open>ParsedRow.Mapped\<close>: a string taken from the
  file, or a default of a mapping profile, which is any JSON value.
\<close>

datatype go_value = GoString string | GoNumber rat | GoBool bool | GoNil

record MappingProfile =
  mp_ID :: nat
  mp_Name :: string
  mp_SourceType :: string
  ColumnMaps :: "(string \<times> string) list"
  Defaults :: "(string \<times> go_value) list"
  mp_LocationID :: nat

text \<open>
  \<^verbatim>\<open>ColumnMaps\<close> and \<^verbatim>\<open>Defaults\<close> are Go maps that the parser only iterates over; they
  are association lists here and the list order stands for Go's iteration order.
\<close>

record ParsedRow =
  LineNumber :: int
  Raw :: "string \<rightharpoonup> string"
  Mapped :: "string \<rightharpoonup> go_value"
  Errors :: "string list"

record ParseResult =
  Headers :: "string list"
  Rows :: "ParsedRow list"
  ValidRows :: int
  pr_ErrorRows :: int
  pr_TotalRows :: int
  pr_SourceType :: string

subsection \<open>parsers.go: helper functions\<close>

definition dateFormats :: "string list" where
  "dateFormats = [''2006-01-02'', ''02/01/2006'', ''01/02/2006'',
                  ''2006-01-02T15:04:05'', ''2006-01-02 15:04:05'']"

fun firstFormat :: "golib \<Rightarrow> string \<Rightarrow> string list \<Rightarrow> int option" where
  "firstFormat L s [] = None"
| "firstFormat L s (f # fs) =
     (case time_Parse L f s of Some t \<Rightarrow> Some t | None \<Rightarrow> firstFormat L s fs)"

definition parseDate :: "golib \<Rightarrow> string \<Rightarrow> int option" where
  "parseDate L s = firstFormat L (TrimSpace s) dateFormats"

definition parseAmount :: "golib \<Rightarrow> string \<Rightarrow> rat option" where
  "parseAmount L s =
     ParseFloat L (ReplaceAll_empty (ReplaceAll_empty (TrimSpace s) (CHR ''$'')) (CHR '',''))"

text \<open>\<^verbatim>\<open>DefaultMappings()\<close>: raw header to logical field, per source type.\<close>

definition DefaultMappings :: "(string \<times> (string \<times> string) list) list" where
  "DefaultMappings =
    [(''pos'',
       [(''Date'', ''date''), (''Time'', ''time''), (''Total'', ''total''),
        (''Subtotal'', ''subtotal''), (''Tax'', ''tax''), (''Discounts'', ''discounts''),
        (''Comps'', ''comps''), (''Payment Method'', ''payment_method''),
        (''Channel'', ''channel''), (''Server'', ''server'')]),
     (''payroll'',
       [(''Period Start'', ''period_start''), (''Period End'', ''period_end''),
        (''Employee'', ''employee_name''), (''Hours Worked'', ''hours_worked''),
        (''Hourly Rate'', ''hourly_rate''), (''Total Wages'', ''total_wages''),
        (''Super'', ''superannuation''), (''Tax Withheld'', ''tax_withheld'')]),
     (''inventory'',
       [(''Snapshot Date'', ''snapshot_date''), (''Item Name'', ''item_name''),
        (''Category'', ''category''), (''Quantity'', ''quantity''), (''Unit'', ''unit''),
        (''Unit Cost'', ''unit_cost''), (''Total Value'', ''total_value'')])]"

subsection \<open>parsers.go: validation\<close>

text \<open>
  The required-field loop: \<^verbatim>\<open>val, ok := row.Mapped[field]; !ok || val == ""\<close>. The
  comparison with \<^verbatim>\<open>""\<close> holds for the empty string only, not for a non-string value.
\<close>

definition missingRequired :: "(string \<rightharpoonup> go_value) \<Rightarrow> string list \<Rightarrow> string list" where
  "missingRequired m fs =
     [''missing required field: '' @ f. f \<leftarrow> fs, m f = None \<or> m f = Some (GoString '''')]"

text \<open>
  \<^verbatim>\<open>row.Mapped[field].(string)\<close> with \<^verbatim>\<open>ok && val != ""\<close>: the non-empty string under
  a field, if there is one.
\<close>

definition stringField :: "(string \<rightharpoonup> go_value) \<Rightarrow> string \<Rightarrow> string option" where
  "stringField m f = (case m f of Some (GoString v) \<Rightarrow> if v \<noteq> '''' then Some v else None
                                | _ \<Rightarrow> None)"

definition invalidNumeric :: "golib \<Rightarrow> (string \<rightharpoonup> go_value) \<Rightarrow> string list \<Rightarrow> string list" where
  "invalidNumeric L m fs =
     concat (map (\<lambda>f. case stringField m f of
                         Some v \<Rightarrow> if parseAmount L v = None
                                   then [''invalid numeric value for '' @ f @ '': '' @ v] else []
                       | None \<Rightarrow> []) fs)"

definition validatePOSRow :: "golib \<Rightarrow> ParsedRow \<Rightarrow> string list" where
  "validatePOSRow L row =
     missingRequired (Mapped row) [''date'', ''total'']
     @ (case stringField (Mapped row) ''date'' of
          Some d \<Rightarrow> if parseDate L d = None then [''invalid date format: '' @ d] else []
        | None \<Rightarrow> [])
     @ invalidNumeric L (Mapped row) [''total'', ''discounts'', ''comps'', ''tax'']"

definition validatePayrollRow :: "golib \<Rightarrow> ParsedRow \<Rightarrow> string list" where
  "validatePayrollRow L row =
     missingRequired (Mapped row) [''period_start'', ''period_end'', ''total_wages'']
     @ concat (map (\<lambda>f. case stringField (Mapped row) f of
                          Some d \<Rightarrow> if parseDate L d = None
                                    then [''invalid date format for '' @ f @ '': '' @ d] else []
                        | None \<Rightarrow> []) [''period_start'', ''period_end''])"

definition validateInventoryRow :: "golib \<Rightarrow> ParsedRow \<Rightarrow> string list" where
  "validateInventoryRow L row =
     missingRequired (Mapped row) [''snapshot_date'', ''item_name'', ''quantity'', ''unit_cost'']
     @ invalidNumeric L (Mapped row) [''quantity'', ''unit_cost'']"

subsection \<open>parsers.go: parseRow and Parse\<close>

text \<open>The raw map: header \<open>i\<close> gets the trimmed cell \<open>i\<close>, or \<^verbatim>\<open>""\<close> past the record's end.\<close>

fun buildRaw :: "(string \<rightharpoonup> string) \<Rightarrow> string list \<Rightarrow> string list \<Rightarrow> (string \<rightharpoonup> string)" where
  "buildRaw m [] cells = m"
| "buildRaw m (h # hs) [] = buildRaw (m(h \<mapsto> '''')) hs []"
| "buildRaw m (h # hs) (v # vs) = buildRaw (m(h \<mapsto> TrimSpace v)) hs vs"

definition applyColumnMaps ::
  "(string \<rightharpoonup> string) \<Rightarrow> (string \<times> string) list \<Rightarrow> (string \<rightharpoonup> go_value)" where
  "applyColumnMaps raw cms =
     foldl (\<lambda>m (sourceCol, targetField).
              case raw sourceCol of
                Some val \<Rightarrow> if val \<noteq> '''' then m(targetField \<mapsto> GoString val) else m
              | None \<Rightarrow> m) Map.empty cms"

definition applyDefaults ::
  "(string \<rightharpoonup> go_value) \<Rightarrow> (string \<times> go_value) list \<Rightarrow> (string \<rightharpoonup> go_value)" where
  "applyDefaults mapped ds =
     foldl (\<lambda>m (field, defaultVal). if m field = None then m(field \<mapsto> defaultVal) else m) mapped ds"

text \<open>
  \<^verbatim>\<open>parseRow\<close>. The mapping is applied only inside \<^verbatim>\<open>if p.mapping != nil\<close>; without a
  profile \<^verbatim>\<open>Mapped\<close> stays the empty map it was made as.
\<close>

definition parseRow ::
  "golib \<Rightarrow> string \<Rightarrow> MappingProfile option \<Rightarrow> string list \<Rightarrow> string list \<Rightarrow> int \<Rightarrow> ParsedRow" where
  "parseRow L sourceType mapping headers cells lineNum =
     (let raw = buildRaw Map.empty headers cells;
          mapped = (case mapping of
                      Some mp \<Rightarrow> applyDefaults (applyColumnMaps raw (ColumnMaps mp)) (Defaults mp)
                    | None \<Rightarrow> Map.empty);
          row = \<lparr>LineNumber = lineNum, Raw = raw, Mapped = mapped, Errors = []\<rparr>
      in row\<lparr>Errors :=
               (if sourceType = ''pos'' then validatePOSRow L row
                else if sourceType = ''payroll'' then validatePayrollRow L row
                else if sourceType = ''inventory'' then validateInventoryRow L row
                else [])\<rparr>)"

text \<open>
  The CSV reader is the sequence of results of \<^verbatim>\<open>csvReader.Read()\<close> before it returns
  \<^verbatim>\<open>io.EOF\<close>: a record, or an error (a line the CSV grammar rejects, or a record whose
  number of fields differs from the header's, for which the reader returns
  \<^verbatim>\<open>ErrFieldCount\<close>).
\<close>

datatype csv_read = Record "string list" | ReadError

fun readRows ::
  "golib \<Rightarrow> string \<Rightarrow> MappingProfile option \<Rightarrow> string list \<Rightarrow> csv_read list \<Rightarrow> int
     \<Rightarrow> ParseResult \<Rightarrow> ParseResult" where
  "readRows L st mp headers [] lineNum result = result"
| "readRows L st mp headers (ReadError # rest) lineNum result =
     readRows L st mp headers rest (lineNum + 1) result"
| "readRows L st mp headers (Record cells # rest) lineNum result =
     (let row = parseRow L st mp headers cells (lineNum + 1);
          result1 = result\<lparr>Rows := Rows result @ [row], pr_TotalRows := pr_TotalRows result + 1\<rparr>;
          result2 = (if Errors row = [] then result1\<lparr>ValidRows := ValidRows result1 + 1\<rparr>
                     else result1\<lparr>pr_ErrorRows := pr_ErrorRows result1 + 1\<rparr>)
      in readRows L st mp headers rest (lineNum + 1) result2)"

definition Parse ::
  "golib \<Rightarrow> string \<Rightarrow> MappingProfile option \<Rightarrow> csv_read list \<Rightarrow> string + ParseResult" where
  "Parse L sourceType mapping reader =
     (case reader of
        Record headers # rest \<Rightarrow>
          Inr (readRows L sourceType mapping (map TrimSpace headers) rest 1
                 \<lparr>Headers = map TrimSpace headers, Rows = [], ValidRows = 0,
                  pr_ErrorRows = 0, pr_TotalRows = 0, pr_SourceType = sourceType\<rparr>)
      | _ \<Rightarrow> Inl ''failed to read CSV headers'')"

subsection \<open>The stored data\<close>

text \<open>
  Identifiers (\<^verbatim>\<open>uuid.UUID\<close>) are natural numbers, instants are seconds since the epoch,
  dates are days since the epoch, clock times are seconds since midnight and amounts
  (\<^verbatim>\<open>float64\<close> in Go, \<^verbatim>\<open>DECIMAL\<close> in the database) are exact rationals: the rounding of
  either representation is not modelled. A nullable column is an \<open>option\<close>.
\<close>

record ImportJob =
  ID :: nat
  SourceType :: string
  Status :: string
  FileName :: string
  FileHash :: string
  TotalRows :: int
  ProcessedRows :: int
  ErrorRows :: int
  LocationID :: nat
  MappingID :: "nat option"
  CreatedByID :: nat
  CreatedAt :: int
  CompletedAt :: "int option"
  ErrorMessage :: string

record ImportAnomaly =
  an_ID :: nat
  ImportJobID :: nat
  an_LineNumber :: int
  Severity :: string
  Message :: string
  RawData :: string
  an_CreatedAt :: int

record ImportParams =
  ip_SourceType :: string
  ip_FileName :: string
  File :: string
  ip_LocationID :: nat
  ip_MappingID :: "nat option"
  UserID :: nat

record ServiceChannel =
  ch_id :: nat
  ch_code :: string
  ch_display_name :: string
  ch_location_id :: nat

record Daypart =
  dp_id :: nat
  start_time :: int
  end_time :: int

record Sale =
  s_id :: nat
  s_location_id :: nat
  s_channel_id :: "nat option"
  s_daypart_id :: "nat option"
  s_occurred_at :: int
  s_total :: rat
  s_subtotal :: rat
  s_tax :: rat
  s_discounts :: rat
  s_comps :: rat
  s_payment_method :: string
  s_import_source :: string
  s_source_id :: string

record SaleLine =
  sl_sale_id :: nat
  sl_menu_item_id :: "nat option"
  sl_quantity :: rat

record MenuItem =
  mi_id :: nat
  mi_recipe_cost :: rat

record PayrollPeriod =
  p_id :: nat
  p_location_id :: nat
  p_start_date :: int
  p_end_date :: int
  p_labor_cost :: rat
  p_superannuation :: rat
  p_tax_withheld :: rat

record InventorySnapshot =
  i_id :: nat
  i_location_id :: nat
  i_snapshot_date :: int
  i_item_name :: string
  i_category :: string
  i_quantity :: rat
  i_unit :: string
  i_unit_cost :: rat
  i_total_value :: rat

record KPIAggregate =
  date :: int
  location_id :: nat
  channel_id :: "nat option"
  daypart_id :: "nat option"
  revenue :: rat
  cogs :: rat
  gross_margin :: rat
  labor_cost :: rat
  labor_pct :: rat
  opex :: rat
  net_profit :: rat
  covers :: int
  avg_check :: rat
  discounts :: rat
  comps :: rat
  freshness_timestamp :: int
  updated_at :: int

text \<open>
  The database and the generator of identifiers: \<^verbatim>\<open>uuid.New()\<close> hands out
  \<open>next_uuid\<close> and advances it.
\<close>

record state =
  import_jobs :: "ImportJob list"
  import_anomalies :: "ImportAnomaly list"
  mapping_profiles :: "MappingProfile list"
  service_channels :: "ServiceChannel list"
  dayparts :: "Daypart list"
  sales :: "Sale list"
  sale_lines :: "SaleLine list"
  menu_items :: "MenuItem list"
  payroll_periods :: "PayrollPeriod list"
  inventory_snapshots :: "InventorySnapshot list"
  kpi_aggregates :: "KPIAggregate list"
  next_uuid :: nat

definition uuid_New :: "state \<Rightarrow> nat \<times> state" where
  "uuid_New db = (next_uuid db, db\<lparr>next_uuid := Suc (next_uuid db)\<rparr>)"

definition DATE :: "int \<Rightarrow> int" where
  "DATE t = t div 86400"

subsection \<open>parsers.go: the import store\<close>

text \<open>
  An \<^verbatim>\<open>INSERT\<close> fails when the primary key is already in the table; the \<^verbatim>\<open>UPDATE\<close>
  statements change the rows that match and never fail.
\<close>

definition CreateJob :: "ImportJob \<Rightarrow> state \<Rightarrow> string option \<times> state" where
  "CreateJob job db =
     (if list_ex (\<lambda>j. ID j = ID job) (import_jobs db) then (Some ''duplicate key'', db)
      else (None, db\<lparr>import_jobs := import_jobs db @ [job]\<rparr>))"

definition GetJobByID :: "nat \<Rightarrow> state \<Rightarrow> ImportJob option" where
  "GetJobByID jid db = find (\<lambda>j. ID j = jid) (import_jobs db)"

text \<open>
  \<^verbatim>\<open>ORDER BY created_at DESC LIMIT 1\<close>: the job created last. SQL leaves the choice
  among equal timestamps open; the model takes the one inserted first.
\<close>

fun latest :: "ImportJob list \<Rightarrow> ImportJob option" where
  "latest [] = None"
| "latest (j # js) =
     (case latest js of
        None \<Rightarrow> Some j
      | Some k \<Rightarrow> if CreatedAt j < CreatedAt k then Some k else Some j)"

definition GetByFileHash :: "string \<Rightarrow> nat \<Rightarrow> state \<Rightarrow> ImportJob option" where
  "GetByFileHash fileHash locationID db =
     latest (filter (\<lambda>j. FileHash j = fileHash \<and> LocationID j = locationID) (import_jobs db))"

definition UpdateJobStatus :: "nat \<Rightarrow> string \<Rightarrow> string \<Rightarrow> int \<Rightarrow> state \<Rightarrow> state" where
  "UpdateJobStatus jid status errorMsg now db =
     db\<lparr>import_jobs :=
          map (\<lambda>j. if ID j = jid
                    then (if status = ''completed'' \<or> status = ''failed''
                          then j\<lparr>Status := status, ErrorMessage := errorMsg, CompletedAt := Some now\<rparr>
                          else j\<lparr>Status := status, ErrorMessage := errorMsg\<rparr>)
                    else j) (import_jobs db)\<rparr>"

definition UpdateJob :: "ImportJob \<Rightarrow> state \<Rightarrow> state" where
  "UpdateJob job db =
     db\<lparr>import_jobs :=
          map (\<lambda>j. if ID j = ID job
                    then j\<lparr>Status := Status job, TotalRows := TotalRows job,
                           ProcessedRows := ProcessedRows job, ErrorRows := ErrorRows job,
                           CompletedAt := CompletedAt job, ErrorMessage := ErrorMessage job\<rparr>
                    else j) (import_jobs db)\<rparr>"

definition CreateAnomaly :: "ImportAnomaly \<Rightarrow> state \<Rightarrow> string option \<times> state" where
  "CreateAnomaly a db =
     (if list_ex (\<lambda>b. an_ID b = an_ID a) (import_anomalies db) then (Some ''duplicate key'', db)
      else (None, db\<lparr>import_anomalies := import_anomalies db @ [a]\<rparr>))"

definition GetAnomaliesForJob :: "nat \<Rightarrow> state \<Rightarrow> ImportAnomaly list" where
  "GetAnomaliesForJob jid db = filter (\<lambda>a. ImportJobID a = jid) (import_anomalies db)"

text \<open>\<^verbatim>\<open>MappingStore.GetByID\<close>.\<close>

definition GetByID :: "nat \<Rightarrow> state \<Rightarrow> MappingProfile option" where
  "GetByID mid db = find (\<lambda>m. mp_ID m = mid) (mapping_profiles db)"

subsection \<open>pipeline.go: StartImport\<close>

text \<open>
  The result is the pair \<^verbatim>\<open>(*ImportJob, error)\<close>. The file is an in-memory byte string,
  so hashing it does not fail.
\<close>

definition StartImport ::
  "golib \<Rightarrow> int \<Rightarrow> ImportParams \<Rightarrow> state \<Rightarrow> (ImportJob option \<times> string option) \<times> state" where
  "StartImport L now params db =
     (let fileHash = sha256_hex L (File params);
          existing = GetByFileHash fileHash (ip_LocationID params) db
      in case (case existing of
                 Some e \<Rightarrow> if Status e = ''completed'' then Some e else None
               | None \<Rightarrow> None) of
           Some e \<Rightarrow> ((Some e, Some ''file has already been imported''), db)
         | None \<Rightarrow>
             (let (newID, db1) = uuid_New db;
                  job = \<lparr>ID = newID, SourceType = ip_SourceType params, Status = ''pending'',
                         FileName = ip_FileName params, FileHash = fileHash, TotalRows = 0,
                         ProcessedRows = 0, ErrorRows = 0, LocationID = ip_LocationID params,
                         MappingID = ip_MappingID params, CreatedByID = UserID params,
                         CreatedAt = now, CompletedAt = None, ErrorMessage = ''''\<rparr>
              in case CreateJob job db1 of
                   (Some err, db2) \<Rightarrow> ((None, Some ''failed to create import job''), db2)
                 | (None, db2) \<Rightarrow> ((Some job, None), db2)))"

subsection \<open>pipeline.go: the domain upserters\<close>

text \<open>\<^verbatim>\<open>v, _ := row.Mapped[f].(string)\<close>: the string under a field, or \<^verbatim>\<open>""\<close>.\<close>

definition asString :: "(string \<rightharpoonup> go_value) \<Rightarrow> string \<Rightarrow> string" where
  "asString m f = (case m f of Some (GoString v) \<Rightarrow> v | _ \<Rightarrow> '''')"

text \<open>An optional amount: \<^verbatim>\<open>x, _ = parseAmount(v)\<close> leaves zero when the parse fails.\<close>

definition optionalAmount :: "golib \<Rightarrow> (string \<rightharpoonup> go_value) \<Rightarrow> string \<Rightarrow> rat" where
  "optionalAmount L m f =
     (case stringField m f of
        Some v \<Rightarrow> (case parseAmount L v of Some x \<Rightarrow> x | None \<Rightarrow> 0)
      | None \<Rightarrow> 0)"

definition slugify :: "golib \<Rightarrow> string \<Rightarrow> string" where
  "slugify L s =
     map (\<lambda>c. if c = CHR '' '' \<or> c = CHR ''_'' then CHR ''-'' else c) (strings_ToLower L s)"

definition getOrCreateChannel ::
  "golib \<Rightarrow> string \<Rightarrow> nat \<Rightarrow> state \<Rightarrow> (string + nat) \<times> state" where
  "getOrCreateChannel L name locationID db =
     (case find (\<lambda>c. sql_LOWER L (ch_display_name c) = sql_LOWER L name
                      \<and> ch_location_id c = locationID)
             (service_channels db) of
        Some c \<Rightarrow> (Inr (ch_id c), db)
      | None \<Rightarrow>
          (let (newID, db1) = uuid_New db
           in if list_ex (\<lambda>c. ch_id c = newID) (service_channels db1)
              then (Inl ''duplicate key'', db1)
              else (Inr newID,
                    db1\<lparr>service_channels := service_channels db1 @
                          [\<lparr>ch_id = newID, ch_code = slugify L name, ch_display_name = name,
                            ch_location_id = locationID\<rparr>]\<rparr>)))"

text \<open>
  \<^verbatim>\<open>getDaypartForTime\<close>: the time is parsed as \<^verbatim>\<open>15:04\<close>, else as \<^verbatim>\<open>3:04 PM\<close>, formatted
  as \<^verbatim>\<open>15:04:05\<close> (its clock time) and looked up with
  \<^verbatim>\<open>start_time <= $1 AND end_time > $1 LIMIT 1\<close>; no row is the error \<^verbatim>\<open>ErrNoRows\<close>.
  With no \<^verbatim>\<open>ORDER BY\<close> the row taken among several is the first of the table here.
\<close>

definition clockOf :: "int \<Rightarrow> int" where
  "clockOf t = t mod 86400"

definition parseTimeOfDay :: "golib \<Rightarrow> string \<Rightarrow> int option" where
  "parseTimeOfDay L timeStr =
     (case time_Parse L ''15:04'' timeStr of
        Some t \<Rightarrow> Some t
      | None \<Rightarrow> time_Parse L ''3:04 PM'' timeStr)"

definition getDaypartForTime :: "golib \<Rightarrow> string \<Rightarrow> state \<Rightarrow> string + nat" where
  "getDaypartForTime L timeStr db =
     (case parseTimeOfDay L timeStr of
        None \<Rightarrow> Inl ''cannot parse time''
      | Some t \<Rightarrow>
          (case find (\<lambda>d. start_time d \<le> clockOf t \<and> end_time d > clockOf t) (dayparts db) of
             Some d \<Rightarrow> Inr (dp_id d)
           | None \<Rightarrow> Inl ''no rows in result set''))"

text \<open>
  A row handler returns \<^verbatim>\<open>nil\<close>, returns an error, or panics
  (\<^verbatim>\<open>job.FileHash[:8]\<close> on a hash shorter than eight bytes).
\<close>

datatype row_result = RowOk | RowErr string | RowPanic

definition itoa_int :: "int \<Rightarrow> string" where
  "itoa_int i = (if i < 0 then CHR ''-'' # itoa (nat (- i)) else itoa (nat i))"

text \<open>
  \<^verbatim>\<open>INSERT INTO sales ... ON CONFLICT (location_id, import_source, source_id) DO UPDATE\<close>:
  a row with the same natural key has its amounts overwritten; otherwise the row is
  inserted, which fails on a primary key already there.
\<close>

definition sameSaleKey :: "Sale \<Rightarrow> Sale \<Rightarrow> bool" where
  "sameSaleKey a b = (s_location_id a = s_location_id b \<and> s_import_source a = s_import_source b
                      \<and> s_source_id a = s_source_id b)"

definition upsertSale :: "Sale \<Rightarrow> state \<Rightarrow> string option \<times> state" where
  "upsertSale new db =
     (if list_ex (sameSaleKey new) (sales db)
      then (None, db\<lparr>sales :=
              map (\<lambda>s. if sameSaleKey new s
                        then s\<lparr>s_total := s_total new, s_subtotal := s_subtotal new, s_tax := s_tax new,
                               s_discounts := s_discounts new, s_comps := s_comps new\<rparr>
                        else s) (sales db)\<rparr>)
      else if list_ex (\<lambda>s. s_id s = s_id new) (sales db) then (Some ''duplicate key'', db)
      else (None, db\<lparr>sales := sales db @ [new]\<rparr>))"

text \<open>The channel and the daypart of a sale; a failed lookup leaves the column \<^verbatim>\<open>NULL\<close>.\<close>

definition rowChannel ::
  "golib \<Rightarrow> ImportJob \<Rightarrow> ParsedRow \<Rightarrow> state \<Rightarrow> nat option \<times> state" where
  "rowChannel L job row db =
     (case stringField (Mapped row) ''channel'' of
        Some channel \<Rightarrow>
          (case getOrCreateChannel L channel (LocationID job) db of
             (Inr i, db1) \<Rightarrow> (Some i, db1)
           | (Inl err, db1) \<Rightarrow> (None, db1))
      | None \<Rightarrow> (None, db))"

definition rowDaypart :: "golib \<Rightarrow> ParsedRow \<Rightarrow> state \<Rightarrow> nat option" where
  "rowDaypart L row db =
     (case stringField (Mapped row) ''time'' of
        Some timeStr \<Rightarrow>
          (case getDaypartForTime L timeStr db of Inr i \<Rightarrow> Some i | Inl err \<Rightarrow> None)
      | None \<Rightarrow> None)"

definition processPOSRow :: "golib \<Rightarrow> ImportJob \<Rightarrow> ParsedRow \<Rightarrow> state \<Rightarrow> row_result \<times> state" where
  "processPOSRow L job row db =
     (case parseDate L (asString (Mapped row) ''date'') of
        None \<Rightarrow> (RowErr ''invalid date: unable to parse date'', db)
      | Some dt \<Rightarrow>
          (case parseAmount L (asString (Mapped row) ''total'') of
             None \<Rightarrow> (RowErr ''invalid total'', db)
           | Some tot \<Rightarrow>
               (let discounts = optionalAmount L (Mapped row) ''discounts'';
                    comps = optionalAmount L (Mapped row) ''comps'';
                    tax = optionalAmount L (Mapped row) ''tax'';
                    (channelID, db1) = rowChannel L job row db;
                    daypartID = rowDaypart L row db1
                in if length (FileHash job) < 8 then (RowPanic, db1)
                   else
                     (let sourceID = take 8 (FileHash job) @ ''-'' @ itoa_int (LineNumber row);
                          (newID, db2) = uuid_New db1
                      in case upsertSale
                                \<lparr>s_id = newID, s_location_id = LocationID job, s_channel_id = channelID,
                                 s_daypart_id = daypartID, s_occurred_at = dt, s_total = tot,
                                 s_subtotal = tot - tax, s_tax = tax, s_discounts = discounts,
                                 s_comps = comps,
                                 s_payment_method = asString (Mapped row) ''payment_method'',
                                 s_import_source = ''csv-import'', s_source_id = sourceID\<rparr> db2 of
                           (Some err, db3) \<Rightarrow> (RowErr err, db3)
                         | (None, db3) \<Rightarrow> (RowOk, db3)))))"

definition samePayrollKey :: "PayrollPeriod \<Rightarrow> PayrollPeriod \<Rightarrow> bool" where
  "samePayrollKey a b = (p_location_id a = p_location_id b \<and> p_start_date a = p_start_date b
                         \<and> p_end_date a = p_end_date b)"

definition upsertPayroll :: "PayrollPeriod \<Rightarrow> state \<Rightarrow> string option \<times> state" where
  "upsertPayroll new db =
     (if list_ex (samePayrollKey new) (payroll_periods db)
      then (None, db\<lparr>payroll_periods :=
              map (\<lambda>p. if samePayrollKey new p
                        then p\<lparr>p_labor_cost := p_labor_cost new,
                               p_superannuation := p_superannuation new,
                               p_tax_withheld := p_tax_withheld new\<rparr>
                        else p) (payroll_periods db)\<rparr>)
      else if list_ex (\<lambda>p. p_id p = p_id new) (payroll_periods db) then (Some ''duplicate key'', db)
      else (None, db\<lparr>payroll_periods := payroll_periods db @ [new]\<rparr>))"

definition processPayrollRow :: "golib \<Rightarrow> ImportJob \<Rightarrow> ParsedRow \<Rightarrow> state \<Rightarrow> row_result \<times> state" where
  "processPayrollRow L job row db =
     (case parseDate L (asString (Mapped row) ''period_start'') of
        None \<Rightarrow> (RowErr ''invalid period_start: unable to parse date'', db)
      | Some startDate \<Rightarrow>
          (case parseDate L (asString (Mapped row) ''period_end'') of
             None \<Rightarrow> (RowErr ''invalid period_end: unable to parse date'', db)
           | Some endDate \<Rightarrow>
               (case parseAmount L (asString (Mapped row) ''total_wages'') of
                  None \<Rightarrow> (RowErr ''invalid total_wages'', db)
                | Some wages \<Rightarrow>
                    (let super = optionalAmount L (Mapped row) ''superannuation'';
                         taxWithheld = optionalAmount L (Mapped row) ''tax_withheld'';
                         (newID, db1) = uuid_New db
                     in case upsertPayroll
                               \<lparr>p_id = newID, p_location_id = LocationID job,
                                p_start_date = DATE startDate, p_end_date = DATE endDate,
                                p_labor_cost = wages, p_superannuation = super,
                                p_tax_withheld = taxWithheld\<rparr> db1 of
                          (Some err, db2) \<Rightarrow> (RowErr err, db2)
                        | (None, db2) \<Rightarrow> (RowOk, db2)))))"

definition sameInventoryKey :: "InventorySnapshot \<Rightarrow> InventorySnapshot \<Rightarrow> bool" where
  "sameInventoryKey a b = (i_location_id a = i_location_id b \<and> i_snapshot_date a = i_snapshot_date b
                           \<and> i_item_name a = i_item_name b)"

definition upsertInventory :: "InventorySnapshot \<Rightarrow> state \<Rightarrow> string option \<times> state" where
  "upsertInventory new db =
     (if list_ex (sameInventoryKey new) (inventory_snapshots db)
      then (None, db\<lparr>inventory_snapshots :=
              map (\<lambda>i. if sameInventoryKey new i
                        then i\<lparr>i_quantity := i_quantity new, i_unit_cost := i_unit_cost new,
                               i_total_value := i_total_value new\<rparr>
                        else i) (inventory_snapshots db)\<rparr>)
      else if list_ex (\<lambda>i. i_id i = i_id new) (inventory_snapshots db)
      then (Some ''duplicate key'', db)
      else (None, db\<lparr>inventory_snapshots := inventory_snapshots db @ [new]\<rparr>))"

definition processInventoryRow :: "golib \<Rightarrow> ImportJob \<Rightarrow> ParsedRow \<Rightarrow> state \<Rightarrow> row_result \<times> state" where
  "processInventoryRow L job row db =
     (case parseDate L (asString (Mapped row) ''snapshot_date'') of
        None \<Rightarrow> (RowErr ''invalid snapshot_date: unable to parse date'', db)
      | Some dt \<Rightarrow>
          (if asString (Mapped row) ''item_name'' = '''' then (RowErr ''item_name is required'', db)
           else
             (case parseAmount L (asString (Mapped row) ''quantity'') of
                None \<Rightarrow> (RowErr ''invalid quantity'', db)
              | Some qty \<Rightarrow>
                  (case parseAmount L (asString (Mapped row) ''unit_cost'') of
                     None \<Rightarrow> (RowErr ''invalid unit_cost'', db)
                   | Some cost \<Rightarrow>
                       (let unit = (if asString (Mapped row) ''unit'' = '''' then ''ea''
                                    else asString (Mapped row) ''unit'');
                            (newID, db1) = uuid_New db
                        in case upsertInventory
                                  \<lparr>i_id = newID, i_location_id = LocationID job,
                                   i_snapshot_date = DATE dt,
                                   i_item_name = asString (Mapped row) ''item_name'',
                                   i_category = asString (Mapped row) ''category'',
                                   i_quantity = qty, i_unit = unit, i_unit_cost = cost,
                                   i_total_value = qty * cost\<rparr> db1 of
                             (Some err, db2) \<Rightarrow> (RowErr err, db2)
                           | (None, db2) \<Rightarrow> (RowOk, db2))))))"

subsection \<open>pipeline.go: ProcessImport\<close>

text \<open>One \<^verbatim>\<open>ImportAnomaly\<close> of severity \<^verbatim>\<open>error\<close> per message; the result of
  \<^verbatim>\<open>CreateAnomaly\<close> is dropped, as in the source.\<close>

fun recordAnomalies :: "nat \<Rightarrow> int \<Rightarrow> int \<Rightarrow> string list \<Rightarrow> state \<Rightarrow> state" where
  "recordAnomalies jobID line now [] db = db"
| "recordAnomalies jobID line now (errMsg # errs) db =
     (let (newID, db1) = uuid_New db;
          (err, db2) = CreateAnomaly
                         \<lparr>an_ID = newID, ImportJobID = jobID, an_LineNumber = line,
                          Severity = ''error'', Message = errMsg, RawData = '''',
                          an_CreatedAt = now\<rparr> db1
      in recordAnomalies jobID line now errs db2)"

text \<open>The \<^verbatim>\<open>switch job.SourceType\<close>: no case matches an unknown source type, and the
  row then counts as processed.\<close>

definition processRow :: "golib \<Rightarrow> ImportJob \<Rightarrow> ParsedRow \<Rightarrow> state \<Rightarrow> row_result \<times> state" where
  "processRow L job row db =
     (if SourceType job = ''pos'' then processPOSRow L job row db
      else if SourceType job = ''payroll'' then processPayrollRow L job row db
      else if SourceType job = ''inventory'' then processInventoryRow L job row db
      else (RowOk, db))"

text \<open>
  The loop over \<^verbatim>\<open>result.Rows\<close>, carrying the job (whose \<^verbatim>\<open>ErrorRows\<close> grows), the
  counter \<^verbatim>\<open>processedRows\<close> and the database; \<open>None\<close> is a panic.
\<close>

fun processRows ::
  "golib \<Rightarrow> nat \<Rightarrow> int \<Rightarrow> ParsedRow list \<Rightarrow> ImportJob \<Rightarrow> int \<Rightarrow> state
     \<Rightarrow> (ImportJob \<times> int) option \<times> state" where
  "processRows L jobID now [] job processedRows db = (Some (job, processedRows), db)"
| "processRows L jobID now (row # rows) job processedRows db =
     (if Errors row \<noteq> []
      then processRows L jobID now rows job processedRows
             (recordAnomalies jobID (LineNumber row) now (Errors row) db)
      else (case processRow L job row db of
              (RowPanic, db1) \<Rightarrow> (None, db1)
            | (RowErr err, db1) \<Rightarrow>
                processRows L jobID now rows (job\<lparr>ErrorRows := ErrorRows job + 1\<rparr>) processedRows
                  (recordAnomalies jobID (LineNumber row) now [err] db1)
            | (RowOk, db1) \<Rightarrow> processRows L jobID now rows job (processedRows + 1) db1))"

datatype exit = Returned "string option" | Panicked

definition loadMapping :: "ImportJob \<Rightarrow> state \<Rightarrow> string + MappingProfile option" where
  "loadMapping job db =
     (case MappingID job of
        None \<Rightarrow> Inr None
      | Some mid \<Rightarrow> (case GetByID mid db of
                       None \<Rightarrow> Inl ''no rows in result set''
                     | Some m \<Rightarrow> Inr (Some m)))"

definition ProcessImport :: "golib \<Rightarrow> int \<Rightarrow> nat \<Rightarrow> csv_read list \<Rightarrow> state \<Rightarrow> exit \<times> state" where
  "ProcessImport L now jobID fileReader db =
     (let db1 = UpdateJobStatus jobID ''processing'' '''' now db
      in case GetJobByID jobID db1 of
           None \<Rightarrow> (Returned (Some ''no rows in result set''), db1)
         | Some job \<Rightarrow>
             (case loadMapping job db1 of
                Inl err \<Rightarrow>
                  (Returned (Some err),
                   UpdateJobStatus jobID ''failed'' (''failed to load mapping: '' @ err) now db1)
              | Inr mapping \<Rightarrow>
                  (case Parse L (SourceType job) mapping fileReader of
                     Inl err \<Rightarrow>
                       (Returned (Some err),
                        UpdateJobStatus jobID ''failed'' (''failed to parse file: '' @ err) now db1)
                   | Inr result \<Rightarrow>
                       (case processRows L jobID now (Rows result)
                               (job\<lparr>TotalRows := pr_TotalRows result,
                                    ErrorRows := pr_ErrorRows result\<rparr>) 0 db1 of
                          (None, db2) \<Rightarrow> (Panicked, db2)
                        | (Some (job1, processedRows), db2) \<Rightarrow>
                            (Returned None,
                             UpdateJob (job1\<lparr>ProcessedRows := processedRows,
                                              CompletedAt := Some now,
                                              Status := ''completed''\<rparr>) db2)))))"

subsection \<open>aggregates.go: refreshDayAggregates\<close>

text \<open>
  The first statement selects from \<^verbatim>\<open>sales s LEFT JOIN sale_lines sl LEFT JOIN menu_items mi\<close>.
  \<open>joinCosts\<close> lists, for one sale, the value of
  \<^verbatim>\<open>sl.quantity * COALESCE(mi.recipe_cost, 0)\<close> in each joined row: \<^verbatim>\<open>NULL\<close> in the single
  row of a sale without lines.
\<close>

definition joinCosts :: "state \<Rightarrow> Sale \<Rightarrow> rat option list" where
  "joinCosts db s =
     (let ls = filter (\<lambda>l. sl_sale_id l = s_id s) (sale_lines db)
      in if ls = [] then [None]
         else concat (map (\<lambda>l. let ms = filter (\<lambda>m. sl_menu_item_id l = Some (mi_id m)) (menu_items db)
                                in if ms = [] then [Some (sl_quantity l * 0)]
                                   else map (\<lambda>m. Some (sl_quantity l * mi_recipe_cost m)) ms) ls))"

text \<open>The joined rows that pass \<^verbatim>\<open>WHERE DATE(s.occurred_at) = $1 AND s.location_id = $2\<close>.\<close>

definition dayRows :: "state \<Rightarrow> nat \<Rightarrow> int \<Rightarrow> (Sale \<times> rat option) list" where
  "dayRows db locationID d =
     concat (map (\<lambda>s. map (\<lambda>c. (s, c)) (joinCosts db s))
               (filter (\<lambda>s. DATE (s_occurred_at s) = d \<and> s_location_id s = locationID) (sales db)))"

text \<open>\<^verbatim>\<open>GROUP BY\<close> channel and daypart (date and location are fixed by the
  \<^verbatim>\<open>WHERE\<close>); \<^verbatim>\<open>NULL\<close>s form one group.\<close>

definition groupKeys :: "(Sale \<times> rat option) list \<Rightarrow> (nat option \<times> nat option) list" where
  "groupKeys rows = remdups (map (\<lambda>(s, c). (s_channel_id s, s_daypart_id s)) rows)"

text \<open>\<^verbatim>\<open>COALESCE(SUM(x), 0)\<close>: \<^verbatim>\<open>SUM\<close> skips \<^verbatim>\<open>NULL\<close>s.\<close>

definition sumNonNull :: "rat option list \<Rightarrow> rat" where
  "sumNonNull xs = sum_list (map (\<lambda>x. case x of Some v \<Rightarrow> v | None \<Rightarrow> 0) xs)"

definition aggregateGroup ::
  "int \<Rightarrow> nat \<Rightarrow> int \<Rightarrow> (Sale \<times> rat option) list \<Rightarrow> nat option \<times> nat option \<Rightarrow> KPIAggregate" where
  "aggregateGroup now locationID d rows key =
     (let g = filter (\<lambda>(s, c). (s_channel_id s, s_daypart_id s) = key) rows;
          rev = sum_list (map (\<lambda>(s, c). s_total s) g);
          cost = sumNonNull (map snd g);
          n = int (length (remdups (map (\<lambda>(s, c). s_id s) g)))
      in \<lparr>date = d, location_id = locationID, channel_id = fst key, daypart_id = snd key,
          revenue = rev, cogs = cost, gross_margin = rev - cost, labor_cost = 0, labor_pct = 0,
          opex = 0, net_profit = 0, covers = n,
          avg_check = (if n > 0 then rev / of_int n else 0),
          discounts = sum_list (map (\<lambda>(s, c). s_discounts s) g),
          comps = sum_list (map (\<lambda>(s, c). s_comps s) g),
          freshness_timestamp = now, updated_at = now\<rparr>)"

text \<open>
  \<^verbatim>\<open>ON CONFLICT (date, location_id, channel_id, daypart_id) DO UPDATE\<close>. The conflict
  is one of the table's \<^verbatim>\<open>UNIQUE (date, location_id, channel_id, daypart_id)\<close>
  constraint, under which two rows collide when the four columns are equal and none is
  \<^verbatim>\<open>NULL\<close>: a \<^verbatim>\<open>NULL\<close> equals nothing, itself included.
\<close>

definition sameKPIKey :: "KPIAggregate \<Rightarrow> KPIAggregate \<Rightarrow> bool" where
  "sameKPIKey new old =
     (date old = date new \<and> location_id old = location_id new
      \<and> channel_id new \<noteq> None \<and> channel_id old = channel_id new
      \<and> daypart_id new \<noteq> None \<and> daypart_id old = daypart_id new)"

text \<open>The \<^verbatim>\<open>DO UPDATE SET\<close> list: the columns that the conflicting row takes from the
  computed one. Labor cost, labor percentage, operating expense and net profit are not
  among them.\<close>

definition conflictUpdate :: "KPIAggregate \<Rightarrow> KPIAggregate \<Rightarrow> KPIAggregate" where
  "conflictUpdate new old =
     old\<lparr>revenue := revenue new, cogs := cogs new, gross_margin := gross_margin new,
         covers := covers new, avg_check := avg_check new, discounts := discounts new,
         comps := comps new, freshness_timestamp := freshness_timestamp new,
         updated_at := updated_at new\<rparr>"

definition upsertKPI :: "KPIAggregate list \<Rightarrow> KPIAggregate \<Rightarrow> KPIAggregate list" where
  "upsertKPI tbl new =
     (if list_ex (sameKPIKey new) tbl
      then map (\<lambda>old. if sameKPIKey new old then conflictUpdate new old else old) tbl
      else tbl @ [new])"

definition refreshSales :: "int \<Rightarrow> nat \<Rightarrow> int \<Rightarrow> state \<Rightarrow> state" where
  "refreshSales now locationID d db =
     (let rows = dayRows db locationID d
      in db\<lparr>kpi_aggregates :=
              foldl upsertKPI (kpi_aggregates db)
                (map (aggregateGroup now locationID d rows) (groupKeys rows))\<rparr>)"

text \<open>
  The second statement reads its labor cost from the subquery
  \<^verbatim>\<open>SELECT SUM(labor_cost) / (end_date - start_date + 1) FROM payroll_periods
  WHERE start_date <= $1 AND end_date >= $1\<close>, which has an aggregate, no
  \<^verbatim>\<open>GROUP BY\<close> and the columns \<^verbatim>\<open>end_date\<close> and \<^verbatim>\<open>start_date\<close> outside any aggregate.
  PostgreSQL, the database of this program (\<^verbatim>\<open>pgx\<close>), rejects such a query when it
  analyses it: the statement fails whatever the tables hold. An engine that tolerates
  bare columns evaluates them on one of the rows that pass the \<^verbatim>\<open>WHERE\<close>. The model
  takes the engine's rule as a parameter, so that both readings can be examined.
\<close>

datatype ungrouped = RejectStatement | TakeRow "PayrollPeriod list \<Rightarrow> nat"

definition postgres :: ungrouped where
  "postgres = RejectStatement"

definition laborSubquery :: "ungrouped \<Rightarrow> PayrollPeriod list \<Rightarrow> int \<Rightarrow> string + rat option" where
  "laborSubquery engine periods d =
     (let ms = filter (\<lambda>p. p_start_date p \<le> d \<and> p_end_date p \<ge> d) periods
      in case engine of
           RejectStatement \<Rightarrow> Inl ''column end_date must appear in the GROUP BY clause''
         | TakeRow pick \<Rightarrow>
             (if ms = [] then Inr None
              else (let r = ms ! (pick ms mod length ms)
                    in Inr (Some (sum_list (map p_labor_cost ms)
                                  / of_int (p_end_date r - p_start_date r + 1))))))"

text \<open>
  \<^verbatim>\<open>UPDATE kpi_aggregates k SET ... FROM (...) p WHERE k.date = $1 AND k.location_id = $2\<close>:
  \<open>laborSet\<close> is the \<^verbatim>\<open>SET\<close> list, with \<open>l\<close> for \<^verbatim>\<open>COALESCE(p.labor_cost, 0)\<close>.
\<close>

definition laborSet :: "rat \<Rightarrow> int \<Rightarrow> KPIAggregate \<Rightarrow> KPIAggregate" where
  "laborSet l now k =
     k\<lparr>labor_cost := l,
       labor_pct := (if revenue k > 0 then l / revenue k * 100 else 0),
       net_profit := gross_margin k - l - opex k,
       updated_at := now\<rparr>"

definition laborUpdate :: "ungrouped \<Rightarrow> int \<Rightarrow> nat \<Rightarrow> int \<Rightarrow> state \<Rightarrow> string option \<times> state" where
  "laborUpdate engine now locationID d db =
     (case laborSubquery engine (payroll_periods db) d of
        Inl err \<Rightarrow> (Some err, db)
      | Inr p \<Rightarrow>
          (let l = (case p of Some v \<Rightarrow> v | None \<Rightarrow> 0)
           in (None,
               db\<lparr>kpi_aggregates :=
                    map (\<lambda>k. if date k = d \<and> location_id k = locationID then laborSet l now k
                              else k) (kpi_aggregates db)\<rparr>)))"

definition refreshDayAggregates ::
  "ungrouped \<Rightarrow> int \<Rightarrow> nat \<Rightarrow> int \<Rightarrow> state \<Rightarrow> string option \<times> state" where
  "refreshDayAggregates engine now locationID d db =
     laborUpdate engine now locationID d (refreshSales now locationID d db)"

subsection \<open>An instance of the library, for evaluating examples\<close>

text \<open>
  A small instance of \<^typ>\<open>golib\<close> on which concrete files can be run. It reads amounts
  of the form \<^verbatim>\<open>digits[.digits]\<close>, dates of the layout \<^verbatim>\<open>2006-01-02\<close> and clock times of
  the layout \<^verbatim>\<open>15:04\<close> with two-digit hours, and returns on them what the Go functions
  return (the date as its midnight, the clock time in seconds since midnight). Every
  other input is an error here; the examples below use it only on inputs of these forms
  and on inputs that the Go functions reject as well. The digest is a stand-in for
  SHA-256: the bytes in hexadecimal, padded to 64 characters.
\<close>

definition digitOf :: "char \<Rightarrow> nat option" where
  "digitOf c = (if (48::nat) \<le> of_char c \<and> of_char c \<le> (57::nat) then Some (of_char c - 48) else None)"

fun natOfDigits :: "nat \<Rightarrow> string \<Rightarrow> nat option" where
  "natOfDigits acc [] = Some acc"
| "natOfDigits acc (c # cs) =
     (case digitOf c of None \<Rightarrow> None | Some v \<Rightarrow> natOfDigits (10 * acc + v) cs)"

definition parseNat :: "string \<Rightarrow> nat option" where
  "parseNat s = (if s = [] then None else natOfDigits 0 s)"

definition decimalAmount :: "string \<Rightarrow> rat option" where
  "decimalAmount s =
     (let whole = takeWhile (\<lambda>c. c \<noteq> CHR ''.'') s;
          rest = dropWhile (\<lambda>c. c \<noteq> CHR ''.'') s
      in case parseNat whole of
           None \<Rightarrow> None
         | Some i \<Rightarrow>
             (if rest = [] then Some (of_nat i)
              else (case parseNat (tl rest) of
                      None \<Rightarrow> None
                    | Some f \<Rightarrow> Some (of_nat i + of_nat f / 10 ^ length (tl rest)))))"

definition isLeap :: "nat \<Rightarrow> bool" where
  "isLeap y = (y mod 4 = 0 \<and> (y mod 100 \<noteq> 0 \<or> y mod 400 = 0))"

definition daysIn :: "nat \<Rightarrow> nat \<Rightarrow> nat" where
  "daysIn y m = (if m = 2 then (if isLeap y then 29 else 28)
                 else if m = 4 \<or> m = 6 \<or> m = 9 \<or> m = 11 then 30 else 31)"

text \<open>Days from 1970-01-01 to the given day of the proleptic Gregorian calendar.\<close>

definition daysFromCivil :: "int \<Rightarrow> int \<Rightarrow> int \<Rightarrow> int" where
  "daysFromCivil y m d =
     (let y1 = (if m \<le> 2 then y - 1 else y);
          era = y1 div 400;
          yoe = y1 - era * 400;
          doy = (153 * ((m + 9) mod 12) + 2) div 5 + d - 1;
          doe = yoe * 365 + yoe div 4 - yoe div 100 + doy
      in era * 146097 + doe - 719468)"

definition isoDate :: "string \<Rightarrow> int option" where
  "isoDate s =
     (if length s = 10 \<and> s ! 4 = CHR ''-'' \<and> s ! 7 = CHR ''-''
      then (case (parseNat (take 4 s), parseNat (take 2 (drop 5 s)), parseNat (drop 8 s)) of
              (Some y, Some m, Some d) \<Rightarrow>
                if 1 \<le> m \<and> m \<le> 12 \<and> 1 \<le> d \<and> d \<le> daysIn y m
                then Some (86400 * daysFromCivil (int y) (int m) (int d)) else None
            | _ \<Rightarrow> None)
      else None)"

definition clock24 :: "string \<Rightarrow> int option" where
  "clock24 s =
     (if length s = 5 \<and> s ! 2 = CHR '':''
      then (case (parseNat (take 2 s), parseNat (drop 3 s)) of
              (Some h, Some m) \<Rightarrow> if h < 24 \<and> m < 60 then Some (int (3600 * h + 60 * m)) else None
            | _ \<Rightarrow> None)
      else None)"

definition hexDigit :: "nat \<Rightarrow> char" where
  "hexDigit n = (if n < 10 then char_of (48 + n) else char_of (87 + n))"

definition hexOf :: "string \<Rightarrow> string" where
  "hexOf s = concat (map (\<lambda>c. [hexDigit (of_char c div 16), hexDigit (of_char c mod 16)]) s)"

text \<open>Lower case on the letters A to Z, on which both lower-case functions agree.\<close>

definition lowerASCII :: "string \<Rightarrow> string" where
  "lowerASCII s =
     map (\<lambda>c. if (65::nat) \<le> of_char c \<and> of_char c \<le> (90::nat)
              then char_of (of_char c + (32::nat)) else c) s"

definition sampleLib :: golib where
  "sampleLib =
     \<lparr>ParseFloat = decimalAmount,
      time_Parse = (\<lambda>layout v. if layout = ''2006-01-02'' then isoDate v
                                else if layout = ''15:04'' then clock24 v else None),
      sha256_hex = (\<lambda>s. hexOf s @ replicate (64 - length (hexOf s)) (CHR ''0'')),
      strings_ToLower = lowerASCII,
      sql_LOWER = lowerASCII\<rparr>"

subsection \<open>Example data\<close>

text \<open>
  A mapping profile for point-of-sale files, a pending import job, the three seeded
  dayparts (breakfast 07:00 to 11:00, lunch 11:00 to 15:00, dinner 15:00 to 20:00) and a
  file of three data rows and one malformed line.
\<close>

definition posProfile :: MappingProfile where
  "posProfile = \<lparr>mp_ID = 7, mp_Name = ''POS export'', mp_SourceType = ''pos'',
     ColumnMaps = [(''Date'', ''date''), (''Time'', ''time''), (''Total'', ''total''),
                   (''Channel'', ''channel'')],
     Defaults = [], mp_LocationID = 1\<rparr>"

definition exampleJob :: ImportJob where
  "exampleJob = \<lparr>ID = 1, SourceType = ''pos'', Status = ''pending'', FileName = ''sales.csv'',
     FileHash = ''9f86d081884c7d65'', TotalRows = 0, ProcessedRows = 0, ErrorRows = 0,
     LocationID = 1, MappingID = Some 7, CreatedByID = 2, CreatedAt = 900, CompletedAt = None,
     ErrorMessage = ''''\<rparr>"

definition exampleDayparts :: "Daypart list" where
  "exampleDayparts = [\<lparr>dp_id = 11, start_time = 25200, end_time = 39600\<rparr>,
                      \<lparr>dp_id = 12, start_time = 39600, end_time = 54000\<rparr>,
                      \<lparr>dp_id = 13, start_time = 54000, end_time = 72000\<rparr>]"

definition exampleDb :: state where
  "exampleDb = \<lparr>import_jobs = [exampleJob], import_anomalies = [],
     mapping_profiles = [posProfile], service_channels = [], dayparts = exampleDayparts,
     sales = [], sale_lines = [], menu_items = [], payroll_periods = [],
     inventory_snapshots = [], kpi_aggregates = [], next_uuid = 100\<rparr>"

definition exampleFile :: "csv_read list" where
  "exampleFile = [Record [''Date'', ''Time'', ''Total''],
                  Record [''2024-01-15'', ''13:30'', ''42.50''],
                  ReadError,
                  Record [''2024-01-15'', ''14:59'', ''abc''],
                  Record ['''', ''15:00'', ''10'']]"

text \<open>Two rows of a sales file whose total is \<^verbatim>\<open>abc\<close>: one with a date, one without.\<close>

definition badTotalRow :: ParsedRow where
  "badTotalRow = parseRow sampleLib ''pos'' (Some posProfile) [''Date'', ''Time'', ''Total'']
                   [''2024-01-15'', ''14:59'', ''abc''] 4"

definition badTotalNoDateRow :: ParsedRow where
  "badTotalNoDateRow = parseRow sampleLib ''pos'' (Some posProfile) [''Date'', ''Time'', ''Total'']
                         ['''', ''15:00'', ''abc''] 5"

text \<open>A valid row at 21:00, after the last daypart has ended.\<close>

definition lateRow :: ParsedRow where
  "lateRow = parseRow sampleLib ''pos'' (Some posProfile) [''Date'', ''Time'', ''Total'']
               [''2024-01-15'', ''21:00'', ''18.00''] 6"

text \<open>
  Valid rows at 13:30 and at 15:00, and a valid row whose time carries seconds, which
  neither of the two layouts of \<^verbatim>\<open>getDaypartForTime\<close> accepts.
\<close>

definition lunchRow :: ParsedRow where
  "lunchRow = parseRow sampleLib ''pos'' (Some posProfile) [''Date'', ''Time'', ''Total'']
                [''2024-01-15'', ''13:30'', ''42.50''] 2"

definition dinnerRow :: ParsedRow where
  "dinnerRow = parseRow sampleLib ''pos'' (Some posProfile) [''Date'', ''Time'', ''Total'']
                 [''2024-01-15'', ''15:00'', ''10''] 3"

definition secondsRow :: ParsedRow where
  "secondsRow = parseRow sampleLib ''pos'' (Some posProfile) [''Date'', ''Time'', ''Total'']
                  [''2024-01-15'', ''13:30:45'', ''42.50''] 7"

text \<open>
  Uploads of one file at one location: as a sales file, as a sales file with a mapping
  profile that does not exist, and as a payroll file. \<open>startDb\<close> has no import job yet.
\<close>

definition uploadParams :: ImportParams where
  "uploadParams = \<lparr>ip_SourceType = ''pos'', ip_FileName = ''sales.csv'',
     File = ''Date,Time,Total'', ip_LocationID = 1, ip_MappingID = Some 7, UserID = 2\<rparr>"

definition retryParams :: ImportParams where
  "retryParams = uploadParams\<lparr>ip_MappingID := Some 99\<rparr>"

definition payrollParams :: ImportParams where
  "payrollParams = uploadParams\<lparr>ip_SourceType := ''payroll'', ip_MappingID := None\<rparr>"

definition startDb :: state where
  "startDb = exampleDb\<lparr>import_jobs := []\<rparr>"

text \<open>
  One upload, processed to completion. And two uploads of the file before either is
  processed; then the first job is processed and completes, and the second is processed
  and fails on its missing profile.
\<close>

definition uploadJob :: ImportJob where
  "uploadJob = \<lparr>ID = 100, SourceType = ''pos'', Status = ''pending'', FileName = ''sales.csv'',
     FileHash = sha256_hex sampleLib ''Date,Time,Total'', TotalRows = 0, ProcessedRows = 0,
     ErrorRows = 0, LocationID = 1, MappingID = Some 7, CreatedByID = 2, CreatedAt = 10,
     CompletedAt = None, ErrorMessage = ''''\<rparr>"

definition oneUpload :: state where
  "oneUpload = snd (StartImport sampleLib 10 uploadParams startDb)"

definition oneCompleted :: state where
  "oneCompleted = snd (ProcessImport sampleLib 30 100 exampleFile oneUpload)"

definition twoUploads :: state where
  "twoUploads = snd (StartImport sampleLib 20 retryParams oneUpload)"

definition oneCompletedOneFailed :: state where
  "oneCompletedOneFailed =
     snd (ProcessImport sampleLib 40 101 exampleFile
            (snd (ProcessImport sampleLib 30 100 exampleFile twoUploads)))"

text \<open>
  One upload as a sales file, a second upload of the same bytes as a payroll file before
  the first is processed, and then the first job processed to completion.
\<close>

definition payrollUploaded :: state where
  "payrollUploaded = snd (StartImport sampleLib 20 payrollParams oneUpload)"

definition firstCompleted :: state where
  "firstCompleted = snd (ProcessImport sampleLib 30 100 exampleFile payrollUploaded)"

text \<open>
  Aggregation examples for 2024-01-15 (day 19737) at location 1: a sale of 100.00 at
  lunchtime in channel 21, a sale of 50.00 in channel 21 that has no daypart, and two
  payroll periods that both cover the day, one of 7 days costing 700.00 and one of 14
  days costing 1400.00.
\<close>

definition lunchSale :: Sale where
  "lunchSale = \<lparr>s_id = 1, s_location_id = 1, s_channel_id = Some 21, s_daypart_id = Some 12,
     s_occurred_at = 1705325400, s_total = 100, s_subtotal = 100, s_tax = 0, s_discounts = 0,
     s_comps = 0, s_payment_method = ''card'', s_import_source = ''csv-import'',
     s_source_id = ''9f86d081-2''\<rparr>"

definition noDaypartSale :: Sale where
  "noDaypartSale = \<lparr>s_id = 2, s_location_id = 1, s_channel_id = Some 21, s_daypart_id = None,
     s_occurred_at = 1705352400, s_total = 50, s_subtotal = 50, s_tax = 0, s_discounts = 0,
     s_comps = 0, s_payment_method = ''cash'', s_import_source = ''csv-import'',
     s_source_id = ''9f86d081-3''\<rparr>"

definition weekPeriod :: PayrollPeriod where
  "weekPeriod = \<lparr>p_id = 31, p_location_id = 1, p_start_date = 19737, p_end_date = 19743,
     p_labor_cost = 700, p_superannuation = 0, p_tax_withheld = 0\<rparr>"

definition fortnightPeriod :: PayrollPeriod where
  "fortnightPeriod = \<lparr>p_id = 32, p_location_id = 1, p_start_date = 19730, p_end_date = 19743,
     p_labor_cost = 1400, p_superannuation = 0, p_tax_withheld = 0\<rparr>"

definition lunchDb :: state where
  "lunchDb = exampleDb\<lparr>sales := [lunchSale]\<rparr>"

definition twoPeriodsDb :: state where
  "twoPeriodsDb = exampleDb\<lparr>sales := [lunchSale], payroll_periods := [weekPeriod, fortnightPeriod]\<rparr>"

definition noDaypartDb :: state where
  "noDaypartDb = exampleDb\<lparr>sales := [noDaypartSale]\<rparr>"

text \<open>The sale that the row handler stores for the row at 21:00: it has no daypart.\<close>

definition lateSaleDb :: state where
  "lateSaleDb = snd (processPOSRow sampleLib exampleJob lateRow exampleDb)"

text \<open>
  The labor cost of a day in the words of the specification: the sum, over the payroll
  periods that cover the day, of the period's cost divided by its number of days.
\<close>

definition spec_dailyLabor :: "PayrollPeriod list \<Rightarrow> int \<Rightarrow> rat" where
  "spec_dailyLabor periods d =
     sum_list (map (\<lambda>p. p_labor_cost p / of_int (p_end_date p - p_start_date p + 1))
                 (filter (\<lambda>p. p_start_date p \<le> d \<and> d \<le> p_end_date p) periods))"

text \<open>The columns of an aggregate row other than its two timestamps.\<close>

definition derived :: "KPIAggregate \<Rightarrow> KPIAggregate" where
  "derived k = k\<lparr>freshness_timestamp := 0, updated_at := 0\<rparr>"

text \<open>
  The key and the aggregated values of a row, and what it means for a table to hold the
  values of a computed row \<open>n\<close>: some row collides with \<open>n\<close> on the unique key and every
  such row carries the values of \<open>n\<close>.
\<close>

definition keyOf :: "KPIAggregate \<Rightarrow> int \<times> nat \<times> nat option \<times> nat option" where
  "keyOf k = (date k, location_id k, channel_id k, daypart_id k)"

definition valuesOf :: "KPIAggregate \<Rightarrow> rat \<times> rat \<times> rat \<times> int \<times> rat \<times> rat \<times> rat" where
  "valuesOf k = (revenue k, cogs k, gross_margin k, covers k, avg_check k, discounts k, comps k)"

definition settled :: "KPIAggregate list \<Rightarrow> KPIAggregate \<Rightarrow> bool" where
  "settled tbl n = (list_ex (sameKPIKey n) tbl
                    \<and> list_all (\<lambda>r. sameKPIKey n r \<longrightarrow> valuesOf r = valuesOf n) tbl)"

section \<open>Properties\<close>

text \<open>The definitions that a run of the model on example data unfolds.\<close>

lemmas parser_defs = Parse_def parseRow_def applyColumnMaps_def applyDefaults_def
  validatePOSRow_def missingRequired_def stringField_def invalidNumeric_def parseAmount_def
  parseDate_def dateFormats_def TrimSpace_def isSpace_def isSpace2_def isSpace3_def
  ReplaceAll_empty_def

lemmas sample_defs = sampleLib_def decimalAmount_def parseNat_def digitOf_def isoDate_def
  daysIn_def isLeap_def daysFromCivil_def clock24_def

lemmas pipeline_defs = ProcessImport_def UpdateJobStatus_def GetJobByID_def loadMapping_def
  GetByID_def processRow_def processPOSRow_def asString_def optionalAmount_def rowChannel_def
  rowDaypart_def getDaypartForTime_def parseTimeOfDay_def clockOf_def uuid_New_def upsertSale_def sameSaleKey_def
  itoa_int_def itoa.simps CreateAnomaly_def UpdateJob_def Let_def

lemmas example_defs = posProfile_def exampleJob_def exampleDayparts_def exampleDb_def
  exampleFile_def

subsection \<open>The parser counts what it keeps\<close>





subsection \<open>C1: processed rows plus error rows equal total rows\<close>

text \<open>Row handling and anomaly recording leave the table of import jobs alone.\<close>

lemma uuid_New_jobs: "uuid_New db = (i, db1) \<Longrightarrow> import_jobs db1 = import_jobs db"
  by (auto simp: uuid_New_def)

lemma CreateAnomaly_jobs: "import_jobs (snd (CreateAnomaly a db)) = import_jobs db"
  by (simp add: CreateAnomaly_def)

lemma recordAnomalies_jobs: "import_jobs (recordAnomalies jid line now errs db) = import_jobs db"
proof (induction errs arbitrary: db)
  case Nil
  show ?case by simp
next
  case (Cons e errs)
  show ?case
    by (simp add: Cons.IH uuid_New_def CreateAnomaly_def split: prod.splits)
qed

lemma getOrCreateChannel_jobs:
  "import_jobs (snd (getOrCreateChannel L name loc db)) = import_jobs db"
  by (simp add: getOrCreateChannel_def uuid_New_def split: option.splits)

lemma rowChannel_jobs: "import_jobs (snd (rowChannel L job row db)) = import_jobs db"
proof (cases "stringField (Mapped row) ''channel''")
  case None
  then show ?thesis by (simp add: rowChannel_def)
next
  case (Some c)
  obtain r d where g: "getOrCreateChannel L c (LocationID job) db = (r, d)" by force
  with getOrCreateChannel_jobs [of L c "LocationID job" db] have "import_jobs d = import_jobs db" by simp
  with Some g show ?thesis by (cases r) (simp_all add: rowChannel_def)
qed

lemma upsertSale_jobs: "upsertSale s db = (r, d) \<Longrightarrow> import_jobs d = import_jobs db"
  by (auto simp: upsertSale_def split: if_splits)

lemma upsertPayroll_jobs: "upsertPayroll s db = (r, d) \<Longrightarrow> import_jobs d = import_jobs db"
  by (auto simp: upsertPayroll_def split: if_splits)

lemma upsertInventory_jobs: "upsertInventory s db = (r, d) \<Longrightarrow> import_jobs d = import_jobs db"
  by (auto simp: upsertInventory_def split: if_splits)

lemma processPOSRow_jobs: "import_jobs (snd (processPOSRow L job row db)) = import_jobs db"
proof -
  obtain c d where rc: "rowChannel L job row db = (c, d)" by force
  with rowChannel_jobs [of L job row db] have d: "import_jobs d = import_jobs db" by simp
  show ?thesis
    using d
    by (auto simp: processPOSRow_def rc Let_def uuid_New_def split: option.splits prod.splits
             dest: upsertSale_jobs)
qed

lemma processPayrollRow_jobs: "import_jobs (snd (processPayrollRow L job row db)) = import_jobs db"
  by (auto simp: processPayrollRow_def Let_def uuid_New_def split: option.splits prod.splits
           dest: upsertPayroll_jobs)

lemma processInventoryRow_jobs: "import_jobs (snd (processInventoryRow L job row db)) = import_jobs db"
  by (auto simp: processInventoryRow_def Let_def uuid_New_def split: option.splits prod.splits
           dest: upsertInventory_jobs)

lemma processRow_jobs: "import_jobs (snd (processRow L job row db)) = import_jobs db"
  by (simp add: processRow_def processPOSRow_jobs processPayrollRow_jobs processInventoryRow_jobs)

lemma processRows_inv:
  "processRows L jid now rows job p db = (Some (job1, p1), db1) \<Longrightarrow>
     p1 + ErrorRows job1 = p + ErrorRows job + int (length (filter (\<lambda>r. Errors r = []) rows))
     \<and> TotalRows job1 = TotalRows job \<and> ID job1 = ID job \<and> import_jobs db1 = import_jobs db"
proof (induction rows arbitrary: job p db)
  case Nil
  then show ?case by simp
next
  case (Cons row rows)
  show ?case
  proof (cases "Errors row = []")
    case False
    with Cons.prems have
      "processRows L jid now rows job p (recordAnomalies jid (LineNumber row) now (Errors row) db)
         = (Some (job1, p1), db1)" by simp
    from Cons.IH [OF this] False show ?thesis by (simp add: recordAnomalies_jobs)
  next
    case True
    obtain r d where pr: "processRow L job row db = (r, d)" by force
    with processRow_jobs [of L job row db] have d: "import_jobs d = import_jobs db" by simp
    show ?thesis
    proof (cases r)
      case RowOk
      with Cons.prems True pr have "processRows L jid now rows job (p + 1) d = (Some (job1, p1), db1)"
        by simp
      from Cons.IH [OF this] True d show ?thesis by simp
    next
      case (RowErr e)
      with Cons.prems True pr have
        "processRows L jid now rows (job\<lparr>ErrorRows := ErrorRows job + 1\<rparr>) p
           (recordAnomalies jid (LineNumber row) now [e] d) = (Some (job1, p1), db1)"
        by simp
      from Cons.IH [OF this] True d show ?thesis
        by (simp add: recordAnomalies_jobs del: recordAnomalies.simps)
    next
      case RowPanic
      with Cons.prems True pr show ?thesis by simp
    qed
  qed
qed

lemma find_ID: "find (\<lambda>j. ID j = jid) js = Some j \<Longrightarrow> ID j = jid"
  by (induction js) (auto split: if_splits)



lemma ProcessImport_cases:
  "ProcessImport L now jobID fileReader db =
     (case GetJobByID jobID (UpdateJobStatus jobID ''processing'' '''' now db) of
        None \<Rightarrow> (Returned (Some ''no rows in result set''), UpdateJobStatus jobID ''processing'' '''' now db)
      | Some job \<Rightarrow>
          (case loadMapping job (UpdateJobStatus jobID ''processing'' '''' now db) of
             Inl err \<Rightarrow>
               (Returned (Some err),
                UpdateJobStatus jobID ''failed'' (''failed to load mapping: '' @ err) now
                  (UpdateJobStatus jobID ''processing'' '''' now db))
           | Inr mapping \<Rightarrow>
               (case Parse L (SourceType job) mapping fileReader of
                  Inl err \<Rightarrow>
                    (Returned (Some err),
                     UpdateJobStatus jobID ''failed'' (''failed to parse file: '' @ err) now
                       (UpdateJobStatus jobID ''processing'' '''' now db))
                | Inr result \<Rightarrow>
                    (case processRows L jobID now (Rows result)
                            (job\<lparr>TotalRows := pr_TotalRows result,
                                 ErrorRows := pr_ErrorRows result\<rparr>) 0
                            (UpdateJobStatus jobID ''processing'' '''' now db) of
                       (None, db2) \<Rightarrow> (Panicked, db2)
                     | (Some (job1, processedRows), db2) \<Rightarrow>
                         (Returned None,
                          UpdateJob (job1\<lparr>ProcessedRows := processedRows,
                                           CompletedAt := Some now,
                                           Status := ''completed''\<rparr>) db2)))))"
  unfolding ProcessImport_def Let_def ..




lemma exampleRun_jobs:
  "import_jobs (snd (ProcessImport sampleLib 1000 1 exampleFile exampleDb)) =
     [exampleJob\<lparr>Status := ''completed'', TotalRows := 3, ProcessedRows := 1, ErrorRows := 2,
                 CompletedAt := Some 1000\<rparr>]"
  by (simp add: parser_defs sample_defs pipeline_defs example_defs)


subsection \<open>C2: a row parsed without a mapping profile\<close>

text \<open>
  C2. The claim is that a row parsed without a profile is mapped through the default
  column mapping of its source type. In \<^verbatim>\<open>parseRow\<close> the mapping step is guarded by
  \<^verbatim>\<open>p.mapping != nil\<close> and has no other branch, and \<^verbatim>\<open>DefaultMappings\<close> is never read by
  the parser: without a profile no logical field receives a value, whatever the headers
  and cells are.
\<close>

theorem parseRow_without_profile:
  "Mapped (parseRow L sourceType None headers cells lineNum) = Map.empty"
  by (simp add: parseRow_def Let_def)

text \<open>
  A sales row under the default headers \<^verbatim>\<open>Date\<close> and \<^verbatim>\<open>Total\<close>: without a profile the
  value is in the raw map, the logical field \<^verbatim>\<open>date\<close> is absent and both required
  fields are reported missing; under a profile that maps the two headers the same row
  is valid.
\<close>

lemma parseRow_without_profile_example:
  "Raw (parseRow sampleLib ''pos'' None [''Date'', ''Total''] [''2024-01-15'', ''42.50''] 2) ''Date''
     = Some ''2024-01-15''
   \<and> Mapped (parseRow sampleLib ''pos'' None [''Date'', ''Total''] [''2024-01-15'', ''42.50''] 2) ''date''
     = None
   \<and> Errors (parseRow sampleLib ''pos'' None [''Date'', ''Total''] [''2024-01-15'', ''42.50''] 2)
     = [''missing required field: date'', ''missing required field: total'']"
  by (simp add: parser_defs)

lemma parseRow_with_profile_example:
  "Mapped (parseRow sampleLib ''pos'' (Some posProfile) [''Date'', ''Total'']
             [''2024-01-15'', ''42.50''] 2) ''date'' = Some (GoString ''2024-01-15'')
   \<and> Errors (parseRow sampleLib ''pos'' (Some posProfile) [''Date'', ''Total'']
             [''2024-01-15'', ''42.50''] 2) = []"
  by (simp add: parser_defs sample_defs posProfile_def)

subsection \<open>C9: lines the CSV reader rejects\<close>

text \<open>A read error advances the line number and nothing else; the rows after it are
  parsed as before.\<close>

lemma readRows_after_error:
  "readRows L st mp hs (ReadError # rest) n res = readRows L st mp hs rest (n + 1) res"
  by simp

lemma readRows_trailing_error:
  "readRows L st mp hs (xs @ [ReadError]) n res = readRows L st mp hs xs n res"
  by (induction L st mp hs xs n res rule: readRows.induct) (simp_all add: Let_def)

text \<open>
  C9. Parsing does go on after a malformed line, but the line is not counted in
  \<^verbatim>\<open>TotalRows\<close>, \<^verbatim>\<open>ErrorRows\<close> or \<^verbatim>\<open>ValidRows\<close> and gets no row of its own
  (\<open>readRows_counts\<close>, \<open>readRows_length\<close>); it only shifts the line numbers of the rows
  after it. A malformed last line therefore leaves no trace at all: the parse result is
  the one of the file without that line.
\<close>

theorem Parse_trailing_malformed_line:
  "Parse L sourceType mapping (Record headers # rows @ [ReadError])
   = Parse L sourceType mapping (Record headers # rows)"
  by (simp add: Parse_def readRows_trailing_error)

text \<open>Nor does the pipeline record an anomaly for it: the whole run is the same.\<close>

lemma ProcessImport_trailing_malformed_line:
  "ProcessImport L now jobID (Record headers # rows @ [ReadError]) db
   = ProcessImport L now jobID (Record headers # rows) db"
  unfolding ProcessImport_def Parse_trailing_malformed_line ..

text \<open>The example file has a malformed third line: three rows, numbered 2, 4 and 5.\<close>

lemma Parse_example:
  "(case Parse sampleLib ''pos'' (Some posProfile) exampleFile of
      Inr r \<Rightarrow> (map LineNumber (Rows r), map Errors (Rows r), pr_TotalRows r, ValidRows r,
                pr_ErrorRows r)
    | Inl e \<Rightarrow> ([], [], 0, 0, 0))
   = ([2, 4, 5],
      [[], [''invalid numeric value for total: abc''], [''missing required field: date'']],
      3, 1, 2)"
  by (simp add: parser_defs sample_defs example_defs Let_def)

subsection \<open>C7: a sales row whose total does not parse\<close>

lemma parseRow_pos_Errors:
  "Errors (parseRow L ''pos'' mp hs cells n)
   = missingRequired (Mapped (parseRow L ''pos'' mp hs cells n)) [''date'', ''total'']
     @ (case stringField (Mapped (parseRow L ''pos'' mp hs cells n)) ''date'' of
          Some d \<Rightarrow> if parseDate L d = None then [''invalid date format: '' @ d] else []
        | None \<Rightarrow> [])
     @ invalidNumeric L (Mapped (parseRow L ''pos'' mp hs cells n))
         [''total'', ''discounts'', ''comps'', ''tax'']"
  by (simp add: parseRow_def validatePOSRow_def Let_def)

lemma parseRow_LineNumber: "LineNumber (parseRow L st mp hs cells n) = n"
  by (simp add: parseRow_def Let_def)

lemma total_message_once:
  assumes "m ''total'' = Some (GoString v)" "v \<noteq> ''''" "parseAmount L v = None"
  shows "filter (\<lambda>e. e = ''invalid numeric value for total: '' @ v)
           (missingRequired m [''date'', ''total'']
            @ (case stringField m ''date'' of
                 Some d \<Rightarrow> if parseDate L d = None then [''invalid date format: '' @ d] else []
               | None \<Rightarrow> [])
            @ invalidNumeric L m [''total'', ''discounts'', ''comps'', ''tax''])
         = [''invalid numeric value for total: '' @ v]"
  using assms
  by (auto simp: missingRequired_def invalidNumeric_def stringField_def split: option.splits go_value.splits)

lemma recordAnomalies_domain:
  "sales (recordAnomalies jid line now errs db) = sales db
   \<and> payroll_periods (recordAnomalies jid line now errs db) = payroll_periods db
   \<and> inventory_snapshots (recordAnomalies jid line now errs db) = inventory_snapshots db
   \<and> service_channels (recordAnomalies jid line now errs db) = service_channels db"
proof (induction errs arbitrary: db)
  case Nil
  show ?case by simp
next
  case (Cons e errs)
  show ?case
    by (simp add: Cons.IH uuid_New_def CreateAnomaly_def split: prod.splits)
qed

lemma recordAnomalies_appends:
  assumes "\<forall>a\<in>set (import_anomalies db). an_ID a < next_uuid db"
  shows "import_anomalies (recordAnomalies jid line now errs db)
         = import_anomalies db
           @ map (\<lambda>(i, e). \<lparr>an_ID = i, ImportJobID = jid, an_LineNumber = line,
                            Severity = ''error'', Message = e, RawData = '''',
                            an_CreatedAt = now\<rparr>) (enumerate (next_uuid db) errs)"
  using assms
proof (induction errs arbitrary: db)
  case Nil
  show ?case by simp
next
  case (Cons e errs)
  let ?a = "\<lparr>an_ID = next_uuid db, ImportJobID = jid, an_LineNumber = line,
              Severity = ''error'', Message = e, RawData = '''', an_CreatedAt = now\<rparr>"
  let ?db2 = "db\<lparr>next_uuid := Suc (next_uuid db), import_anomalies := import_anomalies db @ [?a]\<rparr>"
  from Cons.prems have nodup: "\<not> list_ex (\<lambda>b. an_ID b = next_uuid db) (import_anomalies db)"
    by (auto simp: list_ex_iff)
  then have step: "recordAnomalies jid line now (e # errs) db = recordAnomalies jid line now errs ?db2"
    by (simp add: uuid_New_def CreateAnomaly_def)
  have "\<forall>a\<in>set (import_anomalies ?db2). an_ID a < next_uuid ?db2"
    using Cons.prems by (auto simp: less_Suc_eq)
  from Cons.IH [OF this] show ?case
    unfolding step by simp
qed

text \<open>
  C7, as amended. For a parsed sales row whose mapped \<^verbatim>\<open>total\<close> is a non-empty string
  that does not parse: exactly one of the row's error strings is the one about \<^verbatim>\<open>total\<close>;
  it is the row's only error when the date is present and parses and the other numeric
  fields, where present, parse; the pipeline does not hand the row to a domain upserter
  (the loop goes on with the anomalies recorded and the sales, payroll, inventory and
  channel tables as they were) and records one anomaly of severity \<^verbatim>\<open>error\<close> for each
  error string of the row.
\<close>

theorem unparseable_total_anomalies:
  assumes "r = parseRow L ''pos'' mp hs cells n"
      and "Mapped r ''total'' = Some (GoString v)" and "v \<noteq> ''''" and "parseAmount L v = None"
      and "\<forall>a\<in>set (import_anomalies db). an_ID a < next_uuid db"
  shows "filter (\<lambda>e. e = ''invalid numeric value for total: '' @ v) (Errors r)
           = [''invalid numeric value for total: '' @ v]
       \<and> ((\<exists>d. stringField (Mapped r) ''date'' = Some d \<and> parseDate L d \<noteq> None)
          \<and> (\<forall>f\<in>set [''discounts'', ''comps'', ''tax''].
                \<forall>w. stringField (Mapped r) f = Some w \<longrightarrow> parseAmount L w \<noteq> None)
          \<longrightarrow> Errors r = [''invalid numeric value for total: '' @ v])
       \<and> processRows L jid now (r # rows) job p db
           = processRows L jid now rows job p (recordAnomalies jid n now (Errors r) db)
       \<and> import_anomalies (recordAnomalies jid n now (Errors r) db)
           = import_anomalies db
             @ map (\<lambda>(i, e). \<lparr>an_ID = i, ImportJobID = jid, an_LineNumber = n,
                              Severity = ''error'', Message = e, RawData = '''',
                              an_CreatedAt = now\<rparr>) (enumerate (next_uuid db) (Errors r))
       \<and> sales (recordAnomalies jid n now (Errors r) db) = sales db
       \<and> payroll_periods (recordAnomalies jid n now (Errors r) db) = payroll_periods db
       \<and> inventory_snapshots (recordAnomalies jid n now (Errors r) db) = inventory_snapshots db
       \<and> service_channels (recordAnomalies jid n now (Errors r) db) = service_channels db"
proof -
  have errs: "Errors r = missingRequired (Mapped r) [''date'', ''total'']
     @ (case stringField (Mapped r) ''date'' of
          Some d \<Rightarrow> if parseDate L d = None then [''invalid date format: '' @ d] else []
        | None \<Rightarrow> [])
     @ invalidNumeric L (Mapped r) [''total'', ''discounts'', ''comps'', ''tax'']"
    unfolding assms(1) by (rule parseRow_pos_Errors)
  have once: "filter (\<lambda>e. e = ''invalid numeric value for total: '' @ v) (Errors r)
           = [''invalid numeric value for total: '' @ v]"
    unfolding errs using assms(2,3,4) by (rule total_message_once [where m = "Mapped r" and L = L and v = v])
  then have nonempty: "Errors r \<noteq> []" by auto
  have only: "(\<exists>d. stringField (Mapped r) ''date'' = Some d \<and> parseDate L d \<noteq> None)
          \<and> (\<forall>f\<in>set [''discounts'', ''comps'', ''tax''].
                \<forall>w. stringField (Mapped r) f = Some w \<longrightarrow> parseAmount L w \<noteq> None)
          \<longrightarrow> Errors r = [''invalid numeric value for total: '' @ v]"
    unfolding errs using assms(2,3,4)
    by (auto simp: missingRequired_def invalidNumeric_def stringField_def
             split: option.splits go_value.splits if_splits)
  have line: "LineNumber r = n" unfolding assms(1) by (rule parseRow_LineNumber)
  have step: "processRows L jid now (r # rows) job p db
           = processRows L jid now rows job p (recordAnomalies jid n now (Errors r) db)"
    using nonempty line by simp
  from once only step recordAnomalies_appends [OF assms(5), of jid n now "Errors r"]
       recordAnomalies_domain [of jid n now "Errors r" db]
  show ?thesis by blast
qed

theorem unparseable_total_anomalies_witness:
  "Mapped badTotalRow ''total'' = Some (GoString ''abc'')
   \<and> parseAmount sampleLib ''abc'' = None
   \<and> Errors badTotalRow = [''invalid numeric value for total: abc'']
   \<and> import_anomalies (recordAnomalies 1 4 1000 (Errors badTotalRow) exampleDb)
       = [\<lparr>an_ID = 100, ImportJobID = 1, an_LineNumber = 4, Severity = ''error'',
           Message = ''invalid numeric value for total: abc'', RawData = '''',
           an_CreatedAt = 1000\<rparr>]
   \<and> sales (recordAnomalies 1 4 1000 (Errors badTotalRow) exampleDb) = []"
proof -
  have m: "Mapped badTotalRow ''total'' = Some (GoString ''abc'')"
    by (simp add: badTotalRow_def parser_defs posProfile_def)
  have d: "stringField (Mapped badTotalRow) ''date'' = Some ''2024-01-15''"
    by (simp add: badTotalRow_def parser_defs posProfile_def)
  have o: "\<forall>f\<in>set [''discounts'', ''comps'', ''tax''].
             \<forall>w. stringField (Mapped badTotalRow) f = Some w \<longrightarrow> parseAmount sampleLib w \<noteq> None"
    by (simp add: badTotalRow_def parser_defs posProfile_def)
  have p: "parseAmount sampleLib ''abc'' = None"
    by (simp add: parser_defs sample_defs)
  have pd: "parseDate sampleLib ''2024-01-15'' \<noteq> None"
    by (simp add: parser_defs sample_defs)
  have f: "\<forall>a\<in>set (import_anomalies exampleDb). an_ID a < next_uuid exampleDb"
    by (simp add: exampleDb_def)
  have n: "next_uuid exampleDb = 100" "sales exampleDb = []" "import_anomalies exampleDb = []"
    by (simp_all add: exampleDb_def)
  note T = unparseable_total_anomalies [OF badTotalRow_def m _ p f, of 1 1000 "[]" exampleJob 0]
  from T d o pd have e: "Errors badTotalRow = [''invalid numeric value for total: abc'']"
    by simp
  from T have
    "import_anomalies (recordAnomalies 1 4 1000 (Errors badTotalRow) exampleDb)
       = import_anomalies exampleDb
         @ map (\<lambda>(i, e). \<lparr>an_ID = i, ImportJobID = 1, an_LineNumber = 4, Severity = ''error'',
                          Message = e, RawData = '''', an_CreatedAt = 1000\<rparr>)
             (enumerate (next_uuid exampleDb) (Errors badTotalRow))"
    and "sales (recordAnomalies 1 4 1000 (Errors badTotalRow) exampleDb) = sales exampleDb"
    by simp_all
  with m p e n show ?thesis
    by (simp del: recordAnomalies.simps)
qed

text \<open>
  The claim as stated (exactly one error string, exactly one anomaly) fails for a row
  whose total is \<^verbatim>\<open>abc\<close> and whose date is empty: two error strings, two anomalies.
\<close>

theorem unparseable_total_counterexample:
  "Mapped badTotalNoDateRow ''total'' = Some (GoString ''abc'')
   \<and> parseAmount sampleLib ''abc'' = None
   \<and> Errors badTotalNoDateRow
       = [''missing required field: date'', ''invalid numeric value for total: abc'']
   \<and> map Message (import_anomalies (recordAnomalies 1 5 1000 (Errors badTotalNoDateRow) exampleDb))
       = [''missing required field: date'', ''invalid numeric value for total: abc'']"
  by (simp add: badTotalNoDateRow_def parser_defs sample_defs posProfile_def exampleDb_def
        uuid_New_def CreateAnomaly_def)

subsection \<open>C8: the daypart of a sale\<close>

lemma find_window:
  "find P ds = Some d \<Longrightarrow> d \<in> set ds \<and> P d"
  by (induction ds) (auto split: if_splits)

lemma find_window_exists:
  "d \<in> set ds \<Longrightarrow> P d \<Longrightarrow> \<exists>e. find P ds = Some e"
  by (induction ds) auto

lemma find_no_window:
  "\<forall>d\<in>set ds. \<not> P d \<Longrightarrow> find P ds = None"
  by (induction ds) auto

text \<open>
  C8, as amended. Take a sales row that carries a time-of-day value. A daypart that the
  row handler assigns is one of the table whose window holds the parsed clock time, start
  included and end excluded. When the value parses (as \<^verbatim>\<open>15:04\<close> or as \<^verbatim>\<open>3:04 PM\<close>) and
  some window holds the time, the row is assigned a daypart whose window holds it; when it
  parses and no window holds the time, the row's daypart is unset (\<open>None\<close>); and when it
  does not parse, the row's daypart is unset as well. Unset is a value of the row handler
  and not an error of it.
\<close>

theorem rowDaypart_half_open:
  assumes "stringField (Mapped row) ''time'' = Some timeStr"
  shows "(rowDaypart L row db = Some i \<longrightarrow>
            (\<exists>t d. parseTimeOfDay L timeStr = Some t \<and> d \<in> set (dayparts db) \<and> dp_id d = i
                   \<and> start_time d \<le> clockOf t \<and> clockOf t < end_time d))
         \<and> (parseTimeOfDay L timeStr = Some t \<and> d \<in> set (dayparts db)
              \<and> start_time d \<le> clockOf t \<and> clockOf t < end_time d
            \<longrightarrow> (\<exists>e. e \<in> set (dayparts db) \<and> start_time e \<le> clockOf t \<and> clockOf t < end_time e
                      \<and> rowDaypart L row db = Some (dp_id e)))
         \<and> (parseTimeOfDay L timeStr = Some t
              \<and> (\<forall>d\<in>set (dayparts db). \<not> (start_time d \<le> clockOf t \<and> clockOf t < end_time d))
            \<longrightarrow> rowDaypart L row db = None)
         \<and> (parseTimeOfDay L timeStr = None \<longrightarrow> rowDaypart L row db = None)"
proof -
  let ?P = "\<lambda>t d. start_time d \<le> clockOf t \<and> end_time d > clockOf t"
  have A: "rowDaypart L row db = Some i \<longrightarrow>
            (\<exists>t d. parseTimeOfDay L timeStr = Some t \<and> d \<in> set (dayparts db) \<and> dp_id d = i
                   \<and> start_time d \<le> clockOf t \<and> clockOf t < end_time d)"
  proof
    assume a: "rowDaypart L row db = Some i"
    with assms have g: "getDaypartForTime L timeStr db = Inr i"
      by (cases "getDaypartForTime L timeStr db") (simp_all add: rowDaypart_def)
    then obtain t where t: "parseTimeOfDay L timeStr = Some t"
      by (cases "parseTimeOfDay L timeStr") (simp_all add: getDaypartForTime_def)
    with g obtain d where d: "find (?P t) (dayparts db) = Some d" and i: "dp_id d = i"
      by (cases "find (?P t) (dayparts db)") (simp_all add: getDaypartForTime_def)
    from find_window [OF d] t i
    show "\<exists>t d. parseTimeOfDay L timeStr = Some t \<and> d \<in> set (dayparts db) \<and> dp_id d = i
               \<and> start_time d \<le> clockOf t \<and> clockOf t < end_time d"
      by blast
  qed
  have B: "parseTimeOfDay L timeStr = Some t \<and> d \<in> set (dayparts db)
              \<and> start_time d \<le> clockOf t \<and> clockOf t < end_time d
            \<longrightarrow> (\<exists>e. e \<in> set (dayparts db) \<and> start_time e \<le> clockOf t \<and> clockOf t < end_time e
                      \<and> rowDaypart L row db = Some (dp_id e))"
  proof
    assume b: "parseTimeOfDay L timeStr = Some t \<and> d \<in> set (dayparts db)
              \<and> start_time d \<le> clockOf t \<and> clockOf t < end_time d"
    then have "\<exists>e. find (?P t) (dayparts db) = Some e"
      by (intro find_window_exists [of d]) simp_all
    then obtain e where e: "find (?P t) (dayparts db) = Some e" ..
    with b assms have "rowDaypart L row db = Some (dp_id e)"
      by (simp add: rowDaypart_def getDaypartForTime_def)
    with find_window [OF e]
    show "\<exists>e. e \<in> set (dayparts db) \<and> start_time e \<le> clockOf t \<and> clockOf t < end_time e
              \<and> rowDaypart L row db = Some (dp_id e)"
      by blast
  qed
  have C: "parseTimeOfDay L timeStr = Some t
              \<and> (\<forall>d\<in>set (dayparts db). \<not> (start_time d \<le> clockOf t \<and> clockOf t < end_time d))
            \<longrightarrow> rowDaypart L row db = None"
  proof
    assume c: "parseTimeOfDay L timeStr = Some t
              \<and> (\<forall>d\<in>set (dayparts db). \<not> (start_time d \<le> clockOf t \<and> clockOf t < end_time d))"
    then have "find (?P t) (dayparts db) = None"
      by (intro find_no_window) auto
    with c assms show "rowDaypart L row db = None"
      by (simp add: rowDaypart_def getDaypartForTime_def)
  qed
  have D: "parseTimeOfDay L timeStr = None \<longrightarrow> rowDaypart L row db = None"
    using assms by (simp add: rowDaypart_def getDaypartForTime_def)
  show ?thesis
    by (rule conjI [OF A conjI [OF B conjI [OF C D]]])
qed

text \<open>
  With the seeded windows, 13:30 and 14:59 are lunch (12), 15:00 is dinner (13), 10:59 is
  breakfast (11) and 21:00 is in no window; the row at 21:00 is still stored, with no
  daypart.
\<close>

lemma daypart_examples:
  "getDaypartForTime sampleLib ''13:30'' exampleDb = Inr 12
   \<and> getDaypartForTime sampleLib ''14:59'' exampleDb = Inr 12
   \<and> getDaypartForTime sampleLib ''15:00'' exampleDb = Inr 13
   \<and> getDaypartForTime sampleLib ''10:59'' exampleDb = Inr 11
   \<and> getDaypartForTime sampleLib ''21:00'' exampleDb = Inl ''no rows in result set''"
  by (simp add: getDaypartForTime_def parseTimeOfDay_def clockOf_def sample_defs exampleDb_def
        exampleDayparts_def)

lemma lateRow_processed:
  "fst (processPOSRow sampleLib exampleJob lateRow exampleDb) = RowOk
   \<and> map s_daypart_id (sales (snd (processPOSRow sampleLib exampleJob lateRow exampleDb))) = [None]"
  by (simp add: lateRow_def parser_defs sample_defs pipeline_defs example_defs)

lemma example_row_times:
  "stringField (Mapped lunchRow) ''time'' = Some ''13:30''
   \<and> stringField (Mapped dinnerRow) ''time'' = Some ''15:00''
   \<and> stringField (Mapped lateRow) ''time'' = Some ''21:00''
   \<and> stringField (Mapped secondsRow) ''time'' = Some ''13:30:45''"
  by (simp add: lunchRow_def dinnerRow_def lateRow_def secondsRow_def parser_defs posProfile_def)

lemma example_row_dayparts:
  "rowDaypart sampleLib lunchRow exampleDb = Some 12
   \<and> rowDaypart sampleLib dinnerRow exampleDb = Some 13"
  using example_row_times daypart_examples by (simp add: rowDaypart_def)

theorem rowDaypart_half_open_witness:
  "stringField (Mapped lunchRow) ''time'' = Some ''13:30''
   \<and> rowDaypart sampleLib lunchRow exampleDb = Some 12
   \<and> (\<exists>t d. parseTimeOfDay sampleLib ''13:30'' = Some t \<and> d \<in> set (dayparts exampleDb)
            \<and> dp_id d = 12 \<and> start_time d \<le> clockOf t \<and> clockOf t < end_time d)
   \<and> stringField (Mapped dinnerRow) ''time'' = Some ''15:00''
   \<and> parseTimeOfDay sampleLib ''15:00'' = Some 54000
   \<and> (\<exists>e. e \<in> set (dayparts exampleDb) \<and> start_time e \<le> clockOf 54000
          \<and> clockOf 54000 < end_time e \<and> rowDaypart sampleLib dinnerRow exampleDb = Some (dp_id e))
   \<and> stringField (Mapped lateRow) ''time'' = Some ''21:00''
   \<and> parseTimeOfDay sampleLib ''21:00'' = Some 75600
   \<and> rowDaypart sampleLib lateRow exampleDb = None
   \<and> stringField (Mapped secondsRow) ''time'' = Some ''13:30:45''
   \<and> parseTimeOfDay sampleLib ''13:30:45'' = None
   \<and> rowDaypart sampleLib secondsRow exampleDb = None"
proof -
  let ?dinner = "\<lparr>dp_id = 13, start_time = 54000, end_time = 72000\<rparr>"
  note times = example_row_times
  have a: "rowDaypart sampleLib lunchRow exampleDb = Some 12"
    using example_row_dayparts by simp
  have b: "parseTimeOfDay sampleLib ''15:00'' = Some 54000
           \<and> ?dinner \<in> set (dayparts exampleDb)
           \<and> start_time ?dinner \<le> clockOf 54000 \<and> clockOf 54000 < end_time ?dinner"
    by (simp add: parseTimeOfDay_def clockOf_def sample_defs exampleDb_def exampleDayparts_def)
  have c: "parseTimeOfDay sampleLib ''21:00'' = Some 75600
           \<and> (\<forall>d\<in>set (dayparts exampleDb). \<not> (start_time d \<le> clockOf 75600 \<and> clockOf 75600 < end_time d))"
    by (simp add: parseTimeOfDay_def clockOf_def sample_defs exampleDb_def exampleDayparts_def)
  have d: "parseTimeOfDay sampleLib ''13:30:45'' = None"
    by (simp add: parseTimeOfDay_def sample_defs)
  note T = rowDaypart_half_open
  have t1: "stringField (Mapped lunchRow) ''time'' = Some ''13:30''" using times by simp
  have t2: "stringField (Mapped dinnerRow) ''time'' = Some ''15:00''" using times by simp
  have t3: "stringField (Mapped lateRow) ''time'' = Some ''21:00''" using times by simp
  have t4: "stringField (Mapped secondsRow) ''time'' = Some ''13:30:45''" using times by simp
  from T [OF t1, of sampleLib exampleDb 12 0 ?dinner] a
  have r1: "\<exists>t d. parseTimeOfDay sampleLib ''13:30'' = Some t \<and> d \<in> set (dayparts exampleDb)
            \<and> dp_id d = 12 \<and> start_time d \<le> clockOf t \<and> clockOf t < end_time d"
    by blast
  from T [OF t2, of sampleLib exampleDb 0 54000 ?dinner] b
  have r2: "\<exists>e. e \<in> set (dayparts exampleDb) \<and> start_time e \<le> clockOf 54000
          \<and> clockOf 54000 < end_time e \<and> rowDaypart sampleLib dinnerRow exampleDb = Some (dp_id e)"
    by blast
  from T [OF t3, of sampleLib exampleDb 0 75600 ?dinner] c
  have r3: "rowDaypart sampleLib lateRow exampleDb = None"
    by blast
  from T [OF t4, of sampleLib exampleDb 0 0 ?dinner] d
  have r4: "rowDaypart sampleLib secondsRow exampleDb = None"
    by blast
  from t1 a r1 t2 b r2 t3 c r3 t4 d r4 show ?thesis
    by blast
qed

text \<open>
  The claim as the specification words it, for every row that carries a time-of-day
  value, fails: the time 13:30:45 lies in the lunch window (12), but neither layout accepts
  a time with seconds, so the valid row that carries it is stored with no daypart.
\<close>

theorem daypart_of_time_with_seconds_counterexample:
  "Errors secondsRow = []
   \<and> stringField (Mapped secondsRow) ''time'' = Some ''13:30:45''
   \<and> map dp_id (filter (\<lambda>d. start_time d \<le> 13 * 3600 + 30 * 60 + 45
                              \<and> 13 * 3600 + 30 * 60 + 45 < end_time d) (dayparts exampleDb)) = [12]
   \<and> getDaypartForTime sampleLib ''13:30:45'' exampleDb = Inl ''cannot parse time''
   \<and> rowDaypart sampleLib secondsRow exampleDb = None
   \<and> fst (processPOSRow sampleLib exampleJob secondsRow exampleDb) = RowOk
   \<and> map s_daypart_id (sales (snd (processPOSRow sampleLib exampleJob secondsRow exampleDb)))
       = [None]"
  by (simp add: secondsRow_def parser_defs sample_defs pipeline_defs example_defs)

subsection \<open>C3: the duplicate-upload check of StartImport\<close>

lemmas start_defs = StartImport_def GetByFileHash_def CreateJob_def hexOf_def hexDigit_def
  uploadParams_def retryParams_def payrollParams_def startDb_def oneUpload_def
  oneCompleted_def twoUploads_def
  oneCompletedOneFailed_def

lemma latest_None: "latest js = None \<longleftrightarrow> js = []"
  by (induction js) (auto split: option.splits)

lemma latest_Some:
  "latest js = Some k \<Longrightarrow> k \<in> set js \<and> (\<forall>j\<in>set js. CreatedAt j \<le> CreatedAt k)"
proof (induction js arbitrary: k)
  case Nil
  then show ?case by simp
next
  case (Cons j js)
  show ?case
  proof (cases "latest js")
    case None
    with Cons.prems latest_None [of js] show ?thesis by simp
  next
    case (Some m)
    from Cons.IH [OF Some] Cons.prems Some show ?thesis
      by (auto split: if_splits)
  qed
qed

lemma latest_newest_last:
  "\<forall>x\<in>set xs. CreatedAt x < CreatedAt j \<Longrightarrow> latest (xs @ [j]) = Some j"
  by (induction xs) auto

lemma latest_map:
  "(\<And>j. CreatedAt (g j) = CreatedAt j) \<Longrightarrow> latest (map g js) = map_option g (latest js)"
  by (induction js) (auto split: option.splits)

text \<open>
  C3, as amended. \<^verbatim>\<open>GetByFileHash\<close> returns the job created last among those with the
  file's hash at the location. When that job is \<^verbatim>\<open>completed\<close>, \<^verbatim>\<open>StartImport\<close> returns it
  together with an error and leaves the database as it was: no job and no domain record
  is created. When there is no such job, or the last one is not \<^verbatim>\<open>completed\<close>, and the
  fresh identifier is unused, a new job in state \<^verbatim>\<open>pending\<close> is appended and nothing
  else changes.
\<close>

theorem StartImport_duplicate_check:
  "(GetByFileHash (sha256_hex L (File params)) (ip_LocationID params) db = Some e
      \<and> Status e = ''completed''
    \<longrightarrow> StartImport L now params db = ((Some e, Some ''file has already been imported''), db))
   \<and> ((GetByFileHash (sha256_hex L (File params)) (ip_LocationID params) db = None
        \<or> (\<exists>e. GetByFileHash (sha256_hex L (File params)) (ip_LocationID params) db = Some e
                \<and> Status e \<noteq> ''completed''))
       \<and> \<not> list_ex (\<lambda>j. ID j = next_uuid db) (import_jobs db)
    \<longrightarrow> (\<exists>job. StartImport L now params db
                 = ((Some job, None),
                    db\<lparr>next_uuid := Suc (next_uuid db), import_jobs := import_jobs db @ [job]\<rparr>)
               \<and> Status job = ''pending'' \<and> ID job = next_uuid db
               \<and> FileHash job = sha256_hex L (File params)
               \<and> LocationID job = ip_LocationID params
               \<and> SourceType job = ip_SourceType params \<and> CreatedAt job = now))
   \<and> (GetByFileHash h loc db = Some e
    \<longrightarrow> e \<in> set (import_jobs db) \<and> FileHash e = h \<and> LocationID e = loc
        \<and> (\<forall>j\<in>set (import_jobs db).
              FileHash j = h \<and> LocationID j = loc \<longrightarrow> CreatedAt j \<le> CreatedAt e))
   \<and> (GetByFileHash h loc db = None
    \<longrightarrow> (\<forall>j\<in>set (import_jobs db). \<not> (FileHash j = h \<and> LocationID j = loc)))"
proof -
  let ?h = "sha256_hex L (File params)"
  let ?got = "GetByFileHash ?h (ip_LocationID params) db"
  let ?job = "\<lparr>ID = next_uuid db, SourceType = ip_SourceType params, Status = ''pending'',
                FileName = ip_FileName params, FileHash = ?h, TotalRows = 0,
                ProcessedRows = 0, ErrorRows = 0, LocationID = ip_LocationID params,
                MappingID = ip_MappingID params, CreatedByID = UserID params,
                CreatedAt = now, CompletedAt = None, ErrorMessage = ''''\<rparr>"
  have A: "?got = Some e \<and> Status e = ''completed''
    \<longrightarrow> StartImport L now params db = ((Some e, Some ''file has already been imported''), db)"
    by (simp add: StartImport_def)
  have B: "(?got = None \<or> (\<exists>e. ?got = Some e \<and> Status e \<noteq> ''completed''))
       \<and> \<not> list_ex (\<lambda>j. ID j = next_uuid db) (import_jobs db)
    \<longrightarrow> (\<exists>job. StartImport L now params db
                 = ((Some job, None),
                    db\<lparr>next_uuid := Suc (next_uuid db), import_jobs := import_jobs db @ [job]\<rparr>)
               \<and> Status job = ''pending'' \<and> ID job = next_uuid db
               \<and> FileHash job = ?h
               \<and> LocationID job = ip_LocationID params
               \<and> SourceType job = ip_SourceType params \<and> CreatedAt job = now)"
  proof
    assume a: "(?got = None \<or> (\<exists>e. ?got = Some e \<and> Status e \<noteq> ''completed''))
       \<and> \<not> list_ex (\<lambda>j. ID j = next_uuid db) (import_jobs db)"
    then have eq: "StartImport L now params db
                 = ((Some ?job, None),
                    db\<lparr>next_uuid := Suc (next_uuid db), import_jobs := import_jobs db @ [?job]\<rparr>)"
      by (auto simp: StartImport_def uuid_New_def CreateJob_def Let_def)
    show "\<exists>job. StartImport L now params db
                 = ((Some job, None),
                    db\<lparr>next_uuid := Suc (next_uuid db), import_jobs := import_jobs db @ [job]\<rparr>)
               \<and> Status job = ''pending'' \<and> ID job = next_uuid db
               \<and> FileHash job = ?h
               \<and> LocationID job = ip_LocationID params
               \<and> SourceType job = ip_SourceType params \<and> CreatedAt job = now"
      by (rule exI [of _ ?job]) (simp add: eq)
  qed
  have C: "GetByFileHash h loc db = Some e
    \<longrightarrow> e \<in> set (import_jobs db) \<and> FileHash e = h \<and> LocationID e = loc
        \<and> (\<forall>j\<in>set (import_jobs db).
              FileHash j = h \<and> LocationID j = loc \<longrightarrow> CreatedAt j \<le> CreatedAt e)"
  proof
    assume "GetByFileHash h loc db = Some e"
    from latest_Some [OF this [unfolded GetByFileHash_def]]
    show "e \<in> set (import_jobs db) \<and> FileHash e = h \<and> LocationID e = loc
        \<and> (\<forall>j\<in>set (import_jobs db).
              FileHash j = h \<and> LocationID j = loc \<longrightarrow> CreatedAt j \<le> CreatedAt e)"
      by auto
  qed
  have D: "GetByFileHash h loc db = None
    \<longrightarrow> (\<forall>j\<in>set (import_jobs db). \<not> (FileHash j = h \<and> LocationID j = loc))"
    by (auto simp: GetByFileHash_def latest_None filter_empty_conv)
  show ?thesis
    by (rule conjI [OF A conjI [OF B conjI [OF C D]]])
qed

lemma oneCompleted_lookup:
  "map_option (\<lambda>j. (ID j, Status j))
     (GetByFileHash (sha256_hex sampleLib (File uploadParams)) 1 oneCompleted)
   = Some (100, ''completed'')"
  by (simp add: start_defs parser_defs sample_defs pipeline_defs example_defs)

lemma startDb_lookup:
  "GetByFileHash (sha256_hex sampleLib (File uploadParams)) (ip_LocationID uploadParams) startDb = None
   \<and> \<not> list_ex (\<lambda>j. ID j = next_uuid startDb) (import_jobs startDb)
   \<and> next_uuid startDb = 100 \<and> import_jobs startDb = []"
  by (simp add: start_defs exampleDb_def)

theorem StartImport_duplicate_check_witness:
  "(\<exists>e. GetByFileHash (sha256_hex sampleLib (File uploadParams)) 1 oneCompleted = Some e
        \<and> Status e = ''completed'' \<and> ID e = 100
        \<and> StartImport sampleLib 50 uploadParams oneCompleted
            = ((Some e, Some ''file has already been imported''), oneCompleted))
   \<and> GetByFileHash (sha256_hex sampleLib (File uploadParams)) 1 startDb = None
   \<and> (\<exists>job. StartImport sampleLib 10 uploadParams startDb
               = ((Some job, None), startDb\<lparr>next_uuid := 101, import_jobs := [job]\<rparr>)
             \<and> Status job = ''pending'' \<and> ID job = 100)"
proof -
  note T = StartImport_duplicate_check
  have loc: "ip_LocationID uploadParams = 1" by (simp add: uploadParams_def)
  from oneCompleted_lookup obtain e where
    e: "GetByFileHash (sha256_hex sampleLib (File uploadParams)) 1 oneCompleted = Some e"
       "Status e = ''completed''" "ID e = 100"
    by auto
  from T [of sampleLib uploadParams oneCompleted e 50] e loc
  have rej: "StartImport sampleLib 50 uploadParams oneCompleted
            = ((Some e, Some ''file has already been imported''), oneCompleted)"
    by simp
  from T [of sampleLib uploadParams startDb e 10 "''''" 0] startDb_lookup
  have "\<exists>job. StartImport sampleLib 10 uploadParams startDb
               = ((Some job, None), startDb\<lparr>next_uuid := 101, import_jobs := [job]\<rparr>)
             \<and> Status job = ''pending'' \<and> ID job = 100"
    by auto
  with e rej startDb_lookup loc show ?thesis by auto
qed

text \<open>
  The claim as stated rejects every upload whose hash belongs to some completed job of
  the location. It fails after this sequence of calls: the file is uploaded twice before
  it is processed, the first job completes and the second, created later, fails on its
  missing mapping profile. A completed job with the hash exists, yet the next upload of
  the same bytes is accepted and a third job is created.
\<close>

theorem StartImport_duplicate_check_counterexample:
  "map (\<lambda>j. (ID j, Status j, FileHash j = sha256_hex sampleLib (File uploadParams),
             LocationID j = ip_LocationID uploadParams)) (import_jobs oneCompletedOneFailed)
     = [(100, ''completed'', True, True), (101, ''failed'', True, True)]
   \<and> snd (fst (StartImport sampleLib 50 uploadParams oneCompletedOneFailed)) = None
   \<and> map (\<lambda>j. (ID j, Status j))
         (import_jobs (snd (StartImport sampleLib 50 uploadParams oneCompletedOneFailed)))
     = [(100, ''completed''), (101, ''failed''), (105, ''pending'')]"
  by (simp add: start_defs parser_defs sample_defs pipeline_defs example_defs)

subsection \<open>C10: the duplicate-upload check does not read the source type\<close>

text \<open>A run of \<^verbatim>\<open>ProcessImport\<close> that returns without error, taken apart.\<close>

lemma ProcessImport_completed_run:
  assumes "ProcessImport L now jobID fileReader db = (Returned None, db')"
  obtains job mapping result job1 p1 db2 where
    "GetJobByID jobID (UpdateJobStatus jobID ''processing'' '''' now db) = Some job"
    "Parse L (SourceType job) mapping fileReader = Inr result"
    "processRows L jobID now (Rows result)
       (job\<lparr>TotalRows := pr_TotalRows result, ErrorRows := pr_ErrorRows result\<rparr>) 0
       (UpdateJobStatus jobID ''processing'' '''' now db) = (Some (job1, p1), db2)"
    "db' = UpdateJob (job1\<lparr>ProcessedRows := p1, CompletedAt := Some now,
                            Status := ''completed''\<rparr>) db2"
proof -
  define db1 where "db1 = UpdateJobStatus jobID ''processing'' '''' now db"
  note run = assms [unfolded ProcessImport_cases, folded db1_def]
  from run obtain job where job: "GetJobByID jobID db1 = Some job"
    by (cases "GetJobByID jobID db1") simp_all
  from run job obtain mapping where mp: "loadMapping job db1 = Inr mapping"
    by (cases "loadMapping job db1") simp_all
  from run job mp obtain result where res: "Parse L (SourceType job) mapping fileReader = Inr result"
    by (cases "Parse L (SourceType job) mapping fileReader") simp_all
  define job0 where "job0 = job\<lparr>TotalRows := pr_TotalRows result, ErrorRows := pr_ErrorRows result\<rparr>"
  obtain r db2 where rows0: "processRows L jobID now (Rows result) job0 0 db1 = (r, db2)"
    by force
  from run job mp res rows0 obtain job1 p1 where r: "r = Some (job1, p1)"
    by (cases r) (auto simp: job0_def)
  from run job mp res rows0 r have
    db': "db' = UpdateJob (job1\<lparr>ProcessedRows := p1, CompletedAt := Some now,
                                     Status := ''completed''\<rparr>) db2"
    by (simp add: job0_def)
  from that [OF job [unfolded db1_def] res rows0 [unfolded r job0_def db1_def] db']
  show thesis .
qed

lemma ProcessImport_completed_jobs:
  assumes "ProcessImport L now jobID fileReader db = (Returned None, db')"
  shows "\<exists>g. import_jobs db' = map g (import_jobs db)
            \<and> (\<forall>j. FileHash (g j) = FileHash j \<and> LocationID (g j) = LocationID j
                     \<and> CreatedAt (g j) = CreatedAt j \<and> ID (g j) = ID j
                     \<and> (ID j = jobID \<longrightarrow> Status (g j) = ''completed''))"
proof -
  from assms obtain job mapping result job1 p1 db2 where
    job: "GetJobByID jobID (UpdateJobStatus jobID ''processing'' '''' now db) = Some job"
    and res: "Parse L (SourceType job) mapping fileReader = Inr result"
    and rows: "processRows L jobID now (Rows result)
       (job\<lparr>TotalRows := pr_TotalRows result, ErrorRows := pr_ErrorRows result\<rparr>) 0
       (UpdateJobStatus jobID ''processing'' '''' now db) = (Some (job1, p1), db2)"
    and db': "db' = UpdateJob (job1\<lparr>ProcessedRows := p1, CompletedAt := Some now,
                            Status := ''completed''\<rparr>) db2"
    by (rule ProcessImport_completed_run)
  from job have "ID job = jobID" unfolding GetJobByID_def by (rule find_ID)
  with processRows_inv [OF rows] have id1: "ID job1 = jobID"
    and jobs: "import_jobs db2 = import_jobs (UpdateJobStatus jobID ''processing'' '''' now db)"
    by simp_all
  define u1 where "u1 = (\<lambda>j::ImportJob. if ID j = jobID then j\<lparr>Status := ''processing'', ErrorMessage := ''''\<rparr> else j)"
  define u2 where "u2 = (\<lambda>j::ImportJob. if ID j = jobID
                    then j\<lparr>Status := ''completed'', TotalRows := TotalRows job1,
                           ProcessedRows := p1, ErrorRows := ErrorRows job1,
                           CompletedAt := Some now, ErrorMessage := ErrorMessage job1\<rparr>
                    else j)"
  have "import_jobs db' = map (u2 \<circ> u1) (import_jobs db)"
    unfolding db' by (simp add: UpdateJob_def jobs UpdateJobStatus_def id1 u1_def u2_def)
  moreover have "\<forall>j. FileHash ((u2 \<circ> u1) j) = FileHash j \<and> LocationID ((u2 \<circ> u1) j) = LocationID j
                     \<and> CreatedAt ((u2 \<circ> u1) j) = CreatedAt j \<and> ID ((u2 \<circ> u1) j) = ID j
                     \<and> (ID j = jobID \<longrightarrow> Status ((u2 \<circ> u1) j) = ''completed'')"
    by (simp add: u1_def u2_def)
  ultimately show ?thesis by blast
qed

text \<open>
  The two calls with nothing in between but the processing of the first job: if the first
  upload is accepted (no job with that hash at the location being as recent as it) and its
  job is processed to completion, an upload of the same bytes at the location, of whatever
  source type, made in the state that \<^verbatim>\<open>ProcessImport\<close> returns is rejected and gets the
  first job back, now \<^verbatim>\<open>completed\<close>.
\<close>

lemma second_upload_after_first_completes:
  assumes same: "File p2 = File p1" "ip_LocationID p2 = ip_LocationID p1"
      and older: "\<forall>j\<in>set (import_jobs db).
                    FileHash j = sha256_hex L (File p1) \<and> LocationID j = ip_LocationID p1
                    \<longrightarrow> CreatedAt j < now1"
      and first: "StartImport L now1 p1 db = ((Some job, None), db1)"
      and completed: "ProcessImport L now2 (ID job) fileReader db1 = (Returned None, db2)"
  shows "\<exists>e. StartImport L now3 p2 db2 = ((Some e, Some ''file has already been imported''), db2)
            \<and> ID e = ID job \<and> Status e = ''completed''"
proof -
  let ?h = "sha256_hex L (File p1)"
  let ?loc = "ip_LocationID p1"
  let ?match = "\<lambda>j. FileHash j = ?h \<and> LocationID j = ?loc"
  from first have jobs1: "import_jobs db1 = import_jobs db @ [job]"
    and job: "FileHash job = ?h" "LocationID job = ?loc" "CreatedAt job = now1"
    by (auto simp: StartImport_def uuid_New_def CreateJob_def Let_def
             split: option.splits if_splits)
  from ProcessImport_completed_jobs [OF completed] obtain g where
    jobs2: "import_jobs db2 = map g (import_jobs db1)"
    and g: "\<And>j. FileHash (g j) = FileHash j" "\<And>j. LocationID (g j) = LocationID j"
           "\<And>j. CreatedAt (g j) = CreatedAt j" "\<And>j. ID (g j) = ID j"
           "\<And>j. ID j = ID job \<Longrightarrow> Status (g j) = ''completed''"
    by blast
  have "filter ?match (import_jobs db2) = map g (filter ?match (import_jobs db1))"
    unfolding jobs2 by (simp add: filter_map o_def g)
  also have "filter ?match (import_jobs db1) = filter ?match (import_jobs db) @ [job]"
    unfolding jobs1 using job by simp
  finally have "GetByFileHash ?h ?loc db2 = latest (map g (filter ?match (import_jobs db) @ [job]))"
    unfolding GetByFileHash_def by (simp only:)
  also have "\<dots> = map_option g (latest (filter ?match (import_jobs db) @ [job]))"
    by (rule latest_map) (rule g(3))
  also have "latest (filter ?match (import_jobs db) @ [job]) = Some job"
    using older job by (intro latest_newest_last) auto
  finally have got: "GetByFileHash (sha256_hex L (File p2)) (ip_LocationID p2) db2 = Some (g job)"
    using same by simp
  have "Status (g job) = ''completed''" by (rule g(5)) simp
  with got have "StartImport L now3 p2 db2
                 = ((Some (g job), Some ''file has already been imported''), db2)"
    by (simp add: StartImport_def)
  with g(4) [of job] \<open>Status (g job) = ''completed''\<close> show ?thesis by blast
qed

lemma latest_strict_newest:
  "e \<in> set js \<Longrightarrow> \<forall>j\<in>set js. j \<noteq> e \<longrightarrow> CreatedAt j < CreatedAt e \<Longrightarrow> latest js = Some e"
proof (induction js)
  case Nil
  then show ?case by simp
next
  case (Cons j js)
  show ?case
  proof (cases "e \<in> set js")
    case True
    with Cons have "latest js = Some e" by simp
    with Cons.prems show ?thesis by (cases "j = e") auto
  next
    case False
    with Cons.prems have j: "j = e" by simp
    show ?thesis
    proof (cases "latest js")
      case None
      with j show ?thesis by simp
    next
      case (Some k)
      from latest_Some [OF Some] have k: "k \<in> set js" by simp
      with False have "k \<noteq> e" by auto
      with k Cons.prems(2) have "CreatedAt k < CreatedAt e" by simp
      with Some j show ?thesis by simp
    qed
  qed
qed

text \<open>
  C10, as amended. Take two uploads of the same bytes at the same location, with any two
  source types, the first of which was accepted and created a job. In every later state of
  the database in which that job is stored as \<^verbatim>\<open>completed\<close> and every other job with the hash
  at the location was created before it, the second upload is rejected and gets that job
  back, and the database is left as it was. And in every state, the error that
  \<^verbatim>\<open>StartImport\<close> returns is the same for every declared source type: neither
  \<^verbatim>\<open>GetByFileHash\<close> nor the test on its result reads it.
\<close>

theorem duplicate_check_ignores_source_type:
  assumes same: "File p2 = File p1" "ip_LocationID p2 = ip_LocationID p1"
      and first: "StartImport L now1 p1 db0 = ((Some job, None), db1)"
      and stored: "e \<in> set (import_jobs db)" "ID e = ID job" "FileHash e = FileHash job"
                  "LocationID e = LocationID job" "Status e = ''completed''"
      and newest: "\<forall>j\<in>set (import_jobs db).
                     FileHash j = FileHash e \<and> LocationID j = LocationID e \<and> j \<noteq> e
                     \<longrightarrow> CreatedAt j < CreatedAt e"
  shows "StartImport L now2 p2 db = ((Some e, Some ''file has already been imported''), db)
         \<and> snd (fst (StartImport L now3 (p3\<lparr>ip_SourceType := st\<rparr>) db3))
             = snd (fst (StartImport L now3 p3 db3))"
proof -
  let ?h = "sha256_hex L (File p1)"
  let ?loc = "ip_LocationID p1"
  let ?match = "\<lambda>j. FileHash j = ?h \<and> LocationID j = ?loc"
  from first have job: "FileHash job = ?h" "LocationID job = ?loc"
    by (auto simp: StartImport_def uuid_New_def CreateJob_def Let_def
             split: option.splits if_splits)
  with stored have e: "FileHash e = ?h" "LocationID e = ?loc" by simp_all
  with stored(1) have "e \<in> set (filter ?match (import_jobs db))" by simp
  moreover from newest e
  have "\<forall>j\<in>set (filter ?match (import_jobs db)). j \<noteq> e \<longrightarrow> CreatedAt j < CreatedAt e"
    by simp
  ultimately have "latest (filter ?match (import_jobs db)) = Some e"
    by (rule latest_strict_newest)
  with same have "GetByFileHash (sha256_hex L (File p2)) (ip_LocationID p2) db = Some e"
    by (simp add: GetByFileHash_def)
  with stored(5)
  have A: "StartImport L now2 p2 db = ((Some e, Some ''file has already been imported''), db)"
    by (simp add: StartImport_def)
  have B: "snd (fst (StartImport L now3 (p3\<lparr>ip_SourceType := st\<rparr>) db3))
             = snd (fst (StartImport L now3 p3 db3))"
    by (simp add: StartImport_def uuid_New_def CreateJob_def Let_def split: option.splits)
  from A B show ?thesis by (rule conjI)
qed

lemma oneUpload_run:
  "StartImport sampleLib 10 uploadParams startDb = ((Some uploadJob, None), oneUpload)"
proof -
  have "fst (StartImport sampleLib 10 uploadParams startDb) = (Some uploadJob, None)"
    by (simp add: StartImport_def GetByFileHash_def CreateJob_def uuid_New_def uploadParams_def
          startDb_def exampleDb_def uploadJob_def Let_def)
  then show ?thesis by (simp add: oneUpload_def prod_eq_iff)
qed

lemma oneCompleted_jobs:
  "map (\<lambda>j. (ID j, Status j, FileHash j, LocationID j)) (import_jobs oneCompleted)
   = [(100, ''completed'', FileHash uploadJob, LocationID uploadJob)]"
  by (simp add: start_defs parser_defs sample_defs pipeline_defs example_defs uploadJob_def)

theorem duplicate_check_ignores_source_type_witness:
  "ip_SourceType payrollParams \<noteq> ip_SourceType uploadParams
   \<and> File payrollParams = File uploadParams
   \<and> ip_LocationID payrollParams = ip_LocationID uploadParams
   \<and> StartImport sampleLib 10 uploadParams startDb = ((Some uploadJob, None), oneUpload)
   \<and> (\<exists>e. import_jobs oneCompleted = [e] \<and> ID e = ID uploadJob \<and> Status e = ''completed''
          \<and> StartImport sampleLib 50 payrollParams oneCompleted
              = ((Some e, Some ''file has already been imported''), oneCompleted))
   \<and> snd (fst (StartImport sampleLib 50 (uploadParams\<lparr>ip_SourceType := ''payroll''\<rparr>) startDb))
       = snd (fst (StartImport sampleLib 50 uploadParams startDb))"
proof -
  have p: "ip_SourceType payrollParams \<noteq> ip_SourceType uploadParams"
    "File payrollParams = File uploadParams"
    "ip_LocationID payrollParams = ip_LocationID uploadParams"
    by (simp_all add: payrollParams_def uploadParams_def)
  from oneCompleted_jobs obtain e where
    e: "import_jobs oneCompleted = [e]" "ID e = ID uploadJob" "FileHash e = FileHash uploadJob"
       "LocationID e = LocationID uploadJob" "Status e = ''completed''"
    by (cases "import_jobs oneCompleted") (auto simp: uploadJob_def)
  from e(1) have mem: "e \<in> set (import_jobs oneCompleted)" by simp
  from e(1) have newest: "\<forall>j\<in>set (import_jobs oneCompleted).
                     FileHash j = FileHash e \<and> LocationID j = LocationID e \<and> j \<noteq> e
                     \<longrightarrow> CreatedAt j < CreatedAt e"
    by simp
  note T = duplicate_check_ignores_source_type
             [where ?now2.0 = 50 and ?now3.0 = 50 and ?p3.0 = uploadParams
                and st = "''payroll''" and ?db3.0 = startDb,
              OF p(2) p(3) oneUpload_run mem e(2) e(3) e(4) e(5) newest]
  from T e p oneUpload_run show ?thesis by blast
qed

text \<open>
  The claim as stated, for every two calls, fails when a job with the hash is created at
  the location after the first call's job. The file is uploaded as a sales file and, before
  that job is processed, as a payroll file; both uploads are accepted. The first job is
  then processed to completion. A further upload of the same bytes is accepted and creates
  a third job, although the first upload has completed.
\<close>

theorem second_upload_accepted_counterexample:
  "File payrollParams = File uploadParams
   \<and> ip_LocationID payrollParams = ip_LocationID uploadParams
   \<and> fst (StartImport sampleLib 10 uploadParams startDb) = (Some uploadJob, None)
   \<and> fst (ProcessImport sampleLib 30 100 exampleFile payrollUploaded) = Returned None
   \<and> map (\<lambda>j. (ID j, SourceType j, Status j, CreatedAt j,
                FileHash j = sha256_hex sampleLib (File payrollParams), LocationID j))
         (import_jobs firstCompleted)
     = [(100, ''pos'', ''completed'', 10, True, 1), (101, ''payroll'', ''pending'', 20, True, 1)]
   \<and> snd (fst (StartImport sampleLib 50 payrollParams firstCompleted)) = None
   \<and> map (\<lambda>j. (ID j, SourceType j, Status j))
         (import_jobs (snd (StartImport sampleLib 50 payrollParams firstCompleted)))
     = [(100, ''pos'', ''completed''), (101, ''payroll'', ''pending''),
        (105, ''payroll'', ''pending'')]"
  by (simp add: start_defs payrollUploaded_def firstCompleted_def uploadJob_def
        parser_defs sample_defs pipeline_defs example_defs)

subsection \<open>C5: the derived columns of an aggregate row\<close>

lemmas agg_defs = refreshDayAggregates_def refreshSales_def laborUpdate_def laborSubquery_def
  postgres_def dayRows_def joinCosts_def groupKeys_def aggregateGroup_def sumNonNull_def
  upsertKPI_def conflictUpdate_def laborSet_def sameKPIKey_def DATE_def
  lunchSale_def noDaypartSale_def weekPeriod_def fortnightPeriod_def lunchDb_def twoPeriodsDb_def
  noDaypartDb_def lateSaleDb_def

text \<open>
  On PostgreSQL the labor statement fails, for every date and every content of the
  tables, and \<^verbatim>\<open>refreshDayAggregates\<close> returns its error after the first statement
  has been carried out.
\<close>

lemma laborUpdate_postgres:
  "laborUpdate postgres now locationID d db
   = (Some ''column end_date must appear in the GROUP BY clause'', db)"
  by (simp add: laborUpdate_def laborSubquery_def postgres_def)

lemma refreshDayAggregates_postgres:
  "refreshDayAggregates postgres now locationID d db
   = (Some ''column end_date must appear in the GROUP BY clause'', refreshSales now locationID d db)"
  by (simp add: refreshDayAggregates_def laborUpdate_postgres)

text \<open>
  The first statement keeps \<^verbatim>\<open>gross_margin = revenue - cogs\<close> on every row of the table:
  it inserts rows that satisfy it and it overwrites the three columns together.
\<close>

lemma upsertKPI_gross_margin:
  assumes "\<forall>k\<in>set tbl. gross_margin k = revenue k - cogs k"
      and "gross_margin new = revenue new - cogs new"
  shows "\<forall>k\<in>set (upsertKPI tbl new). gross_margin k = revenue k - cogs k"
  using assms by (auto simp: upsertKPI_def conflictUpdate_def)

lemma foldl_upsertKPI_gross_margin:
  assumes "\<forall>k\<in>set tbl. gross_margin k = revenue k - cogs k"
      and "\<forall>new\<in>set news. gross_margin new = revenue new - cogs new"
  shows "\<forall>k\<in>set (foldl upsertKPI tbl news). gross_margin k = revenue k - cogs k"
  using assms
proof (induction news arbitrary: tbl)
  case Nil
  then show ?case by simp
next
  case (Cons new news)
  have 1: "\<forall>k\<in>set (upsertKPI tbl new). gross_margin k = revenue k - cogs k"
    by (rule upsertKPI_gross_margin) (use Cons.prems in simp_all)
  have 2: "\<forall>new\<in>set news. gross_margin new = revenue new - cogs new"
    using Cons.prems(2) by simp
  from Cons.IH [OF 1 2] show ?case by simp
qed

lemma refreshSales_gross_margin:
  assumes "\<forall>k\<in>set (kpi_aggregates db). gross_margin k = revenue k - cogs k"
  shows "\<forall>k\<in>set (kpi_aggregates (refreshSales now locationID d db)).
           gross_margin k = revenue k - cogs k"
proof -
  have "\<forall>new\<in>set (map (aggregateGroup now locationID d (dayRows db locationID d))
                       (groupKeys (dayRows db locationID d))).
          gross_margin new = revenue new - cogs new"
    by (simp add: aggregateGroup_def Let_def)
  from foldl_upsertKPI_gross_margin [OF assms this]
  show ?thesis by (simp add: refreshSales_def Let_def)
qed

text \<open>
  On an engine that runs the labor statement, the rows of the day leave it with the
  claimed net profit and labor percentage, zero when the revenue is not positive.
\<close>

lemma laborSubquery_tolerant: "\<exists>p. laborSubquery (TakeRow pick) periods d = Inr p"
  by (simp add: laborSubquery_def Let_def)

lemma laborUpdate_tolerant:
  "\<exists>l. laborUpdate (TakeRow pick) now locationID d db
        = (None, db\<lparr>kpi_aggregates :=
                       map (\<lambda>k. if date k = d \<and> location_id k = locationID then laborSet l now k
                                 else k) (kpi_aggregates db)\<rparr>)"
proof -
  from laborSubquery_tolerant obtain p where
    p: "laborSubquery (TakeRow pick) (payroll_periods db) d = Inr p" by blast
  show ?thesis
    by (rule exI [of _ "case p of Some v \<Rightarrow> v | None \<Rightarrow> 0"]) (simp add: laborUpdate_def p Let_def)
qed

lemma laborUpdate_tolerant_invariants:
  assumes "laborUpdate (TakeRow pick) now locationID d db = (err, db')"
      and "k \<in> set (kpi_aggregates db')" and "date k = d" and "location_id k = locationID"
  shows "net_profit k = gross_margin k - labor_cost k - opex k
         \<and> labor_pct k = (if revenue k > 0 then labor_cost k / revenue k * 100 else 0)"
proof -
  from laborUpdate_tolerant [of pick now locationID d db] obtain l where
    l: "laborUpdate (TakeRow pick) now locationID d db
        = (None, db\<lparr>kpi_aggregates :=
                       map (\<lambda>k. if date k = d \<and> location_id k = locationID then laborSet l now k
                                 else k) (kpi_aggregates db)\<rparr>)"
    by blast
  define f where
    "f = (\<lambda>k. if date k = d \<and> location_id k = locationID then laborSet l now k else k)"
  from l assms(1) have "kpi_aggregates db' = map f (kpi_aggregates db)"
    by (auto simp: f_def)
  with assms(2) have "k \<in> f ` set (kpi_aggregates db)" by simp
  then obtain k0 where k: "k = f k0" by blast
  show ?thesis
  proof (cases "date k0 = d \<and> location_id k0 = locationID")
    case True
    then show ?thesis unfolding k f_def by (simp add: laborSet_def)
  next
    case False
    with assms(3,4) k show ?thesis by (simp add: f_def)
  qed
qed

text \<open>
  C5. The claim gives every aggregate row \<^verbatim>\<open>net_profit = gross_margin - labor_cost - opex\<close>.
  The formulas of the code are those of the claim, but the statement that holds the ones
  for labor cost, labor percentage and net profit is rejected by PostgreSQL, so a row
  keeps the zeros that the first statement inserted. For the sale of 100.00 with no sale
  lines, the run returns the error and leaves a row with revenue 100, cost of goods 0,
  gross margin 100, labor cost 0, operating expense 0 and net profit 0, where the claim
  gives the net profit 100.
\<close>

theorem net_profit_not_recomputed:
  "fst (refreshDayAggregates postgres 5000 1 19737 lunchDb)
     = Some ''column end_date must appear in the GROUP BY clause''
   \<and> map (\<lambda>k. (revenue k, cogs k, gross_margin k, labor_cost k, labor_pct k, opex k, net_profit k))
       (kpi_aggregates (snd (refreshDayAggregates postgres 5000 1 19737 lunchDb)))
     = [(100, 0, 100, 0, 0, 0, 0)]
   \<and> map (\<lambda>k. gross_margin k - labor_cost k - opex k)
       (kpi_aggregates (snd (refreshDayAggregates postgres 5000 1 19737 lunchDb)))
     = [100]"
  by (simp add: agg_defs Let_def exampleDb_def)

subsection \<open>C6: the labor cost of a day\<close>

lemma laborSubquery_tolerant_single:
  assumes "filter (\<lambda>p. p_start_date p \<le> d \<and> p_end_date p \<ge> d) periods = [p]"
  shows "laborSubquery (TakeRow pick) periods d = Inr (Some (spec_dailyLabor periods d))"
proof -
  have "filter (\<lambda>p. p_start_date p \<le> d \<and> d \<le> p_end_date p) periods = [p]"
    using assms by (simp cong: filter_cong)
  with assms show ?thesis
    by (simp add: laborSubquery_def spec_dailyLabor_def Let_def)
qed

text \<open>
  C6. The claim gives a day the sum, over the payroll periods that cover it, of the
  period's cost divided by its number of days. On PostgreSQL the labor statement fails for
  every date and every content of the tables, so no labor cost is assigned at all. With a
  period of 7 days costing 700.00 and a period of 14 days costing 1400.00 that both cover
  the day, the claim gives 100 + 100 = 200; the row keeps the labor cost 0. An engine that
  evaluated the bare columns on one of the rows would divide the sum of the costs by the
  number of days of that row: 2100 / 7 = 300 on the first period, 2100 / 14 = 150 on the
  second.
\<close>

theorem labor_cost_not_allocated:
  "refreshDayAggregates postgres now locationID d db
     = (Some ''column end_date must appear in the GROUP BY clause'',
        refreshSales now locationID d db)
   \<and> spec_dailyLabor (payroll_periods twoPeriodsDb) 19737 = 200
   \<and> map labor_cost (kpi_aggregates (snd (refreshDayAggregates postgres 5000 1 19737 twoPeriodsDb)))
     = [0]
   \<and> map labor_cost
       (kpi_aggregates (snd (refreshDayAggregates (TakeRow (\<lambda>ms. 0)) 5000 1 19737 twoPeriodsDb)))
     = [300]
   \<and> map labor_cost
       (kpi_aggregates (snd (refreshDayAggregates (TakeRow (\<lambda>ms. 1)) 5000 1 19737 twoPeriodsDb)))
     = [150]"
proof -
  have "spec_dailyLabor (payroll_periods twoPeriodsDb) 19737 = 200
   \<and> map labor_cost (kpi_aggregates (snd (refreshDayAggregates postgres 5000 1 19737 twoPeriodsDb)))
     = [0]
   \<and> map labor_cost
       (kpi_aggregates (snd (refreshDayAggregates (TakeRow (\<lambda>ms. 0)) 5000 1 19737 twoPeriodsDb)))
     = [300]
   \<and> map labor_cost
       (kpi_aggregates (snd (refreshDayAggregates (TakeRow (\<lambda>ms. 1)) 5000 1 19737 twoPeriodsDb)))
     = [150]"
    by (simp add: agg_defs spec_dailyLabor_def Let_def exampleDb_def)
  with refreshDayAggregates_postgres [of now locationID d db] show ?thesis
    by (rule conjI)
qed

subsection \<open>C4: running the recomputation twice\<close>

lemma sameKPIKey_keyOf:
  "sameKPIKey n r \<longleftrightarrow> keyOf r = keyOf n \<and> channel_id n \<noteq> None \<and> daypart_id n \<noteq> None"
  by (auto simp: sameKPIKey_def keyOf_def)

lemma keyOf_conflictUpdate [simp]: "keyOf (conflictUpdate n old) = keyOf old"
  by (simp add: keyOf_def conflictUpdate_def)

lemma sameKPIKey_conflictUpdate [simp]: "sameKPIKey a (conflictUpdate n old) = sameKPIKey a old"
  by (simp add: sameKPIKey_def conflictUpdate_def)

lemma valuesOf_conflictUpdate [simp]: "valuesOf (conflictUpdate n old) = valuesOf n"
  by (simp add: valuesOf_def conflictUpdate_def)

lemma upsertKPI_hit:
  "list_ex (sameKPIKey n) tbl \<Longrightarrow>
   upsertKPI tbl n = map (\<lambda>old. if sameKPIKey n old then conflictUpdate n old else old) tbl"
  by (simp add: upsertKPI_def)

lemma upsertKPI_miss: "\<not> list_ex (sameKPIKey n) tbl \<Longrightarrow> upsertKPI tbl n = tbl @ [n]"
  by (simp add: upsertKPI_def)

lemma upsertKPI_settles:
  assumes "channel_id n \<noteq> None" "daypart_id n \<noteq> None"
  shows "settled (upsertKPI tbl n) n"
proof (cases "list_ex (sameKPIKey n) tbl")
  case True
  then obtain old where old: "old \<in> set tbl" "sameKPIKey n old"
    by (auto simp: list_ex_iff)
  then have "conflictUpdate n old \<in> set (upsertKPI tbl n)"
    unfolding upsertKPI_hit [OF True] by force
  moreover have "sameKPIKey n (conflictUpdate n old)"
    using old(2) by (simp add: sameKPIKey_keyOf)
  ultimately have ex: "list_ex (sameKPIKey n) (upsertKPI tbl n)"
    unfolding list_ex_iff by blast
  have "\<forall>r\<in>set (upsertKPI tbl n). sameKPIKey n r \<longrightarrow> valuesOf r = valuesOf n"
    unfolding upsertKPI_hit [OF True] by auto
  with ex show ?thesis by (simp add: settled_def list_all_iff)
next
  case False
  then have "\<forall>r\<in>set tbl. \<not> sameKPIKey n r" by (simp add: list_ex_iff)
  moreover have "sameKPIKey n n" using assms by (simp add: sameKPIKey_keyOf)
  ultimately show ?thesis
    unfolding upsertKPI_miss [OF False] settled_def by (simp add: list_all_iff)
qed

lemma upsertKPI_other_key:
  assumes "settled tbl n" "keyOf m \<noteq> keyOf n"
  shows "settled (upsertKPI tbl m) n"
proof -
  from assms(1) obtain r0 where r0: "r0 \<in> set tbl" "sameKPIKey n r0"
    and all: "\<forall>r\<in>set tbl. sameKPIKey n r \<longrightarrow> valuesOf r = valuesOf n"
    by (auto simp: settled_def list_ex_iff list_all_iff)
  have nm: "\<And>r. sameKPIKey n r \<Longrightarrow> \<not> sameKPIKey m r"
    using assms(2) by (auto simp: sameKPIKey_keyOf)
  show ?thesis
  proof (cases "list_ex (sameKPIKey m) tbl")
    case True
    have "r0 \<in> set (upsertKPI tbl m)"
      unfolding upsertKPI_hit [OF True] using r0 nm [OF r0(2)] by force
    with r0(2) have ex: "list_ex (sameKPIKey n) (upsertKPI tbl m)"
      unfolding list_ex_iff by blast
    have "\<forall>r\<in>set (upsertKPI tbl m). sameKPIKey n r \<longrightarrow> valuesOf r = valuesOf n"
      unfolding upsertKPI_hit [OF True] using all nm by auto
    with ex show ?thesis by (simp add: settled_def list_all_iff)
  next
    case False
    have "\<not> sameKPIKey n m" using assms(2) by (auto simp: sameKPIKey_keyOf)
    with r0 all show ?thesis
      unfolding upsertKPI_miss [OF False] settled_def
      by (auto simp: list_ex_iff list_all_iff)
  qed
qed

lemma foldl_upsertKPI_other_keys:
  assumes "settled tbl n" "\<forall>m\<in>set ms. keyOf m \<noteq> keyOf n"
  shows "settled (foldl upsertKPI tbl ms) n"
  using assms
proof (induction ms arbitrary: tbl)
  case Nil
  then show ?case by simp
next
  case (Cons m ms)
  have 1: "settled (upsertKPI tbl m) n"
    by (rule upsertKPI_other_key) (use Cons.prems in simp_all)
  have 2: "\<forall>m\<in>set ms. keyOf m \<noteq> keyOf n" using Cons.prems(2) by simp
  from Cons.IH [OF 1 2] show ?case by simp
qed

lemma foldl_upsertKPI_settles:
  assumes "distinct (map keyOf news)"
      and "\<forall>n\<in>set news. channel_id n \<noteq> None \<and> daypart_id n \<noteq> None"
  shows "\<forall>n\<in>set news. settled (foldl upsertKPI tbl news) n"
  using assms
proof (induction news arbitrary: tbl)
  case Nil
  then show ?case by simp
next
  case (Cons m ms)
  have d: "distinct (map keyOf ms)" and nn: "\<forall>n\<in>set ms. channel_id n \<noteq> None \<and> daypart_id n \<noteq> None"
    using Cons.prems by simp_all
  have "keyOf m \<notin> keyOf ` set ms" using Cons.prems(1) by simp
  then have others: "\<forall>x\<in>set ms. keyOf x \<noteq> keyOf m" by (metis image_eqI)
  have "settled (upsertKPI tbl m) m"
    by (rule upsertKPI_settles) (use Cons.prems(2) in simp_all)
  from foldl_upsertKPI_other_keys [OF this others]
  have head: "settled (foldl upsertKPI tbl (m # ms)) m" by simp
  from Cons.IH [OF d nn, of "upsertKPI tbl m"]
  have tail: "\<forall>n\<in>set ms. settled (foldl upsertKPI tbl (m # ms)) n" by simp
  from head tail show ?case by simp
qed


lemma sameKPIKey_derived [simp]: "sameKPIKey n (derived r) = sameKPIKey n r"
  by (simp add: sameKPIKey_def derived_def)

lemma valuesOf_derived [simp]: "valuesOf (derived r) = valuesOf r"
  by (simp add: valuesOf_def derived_def)

lemma settled_derived: "settled (map derived tbl) n = settled tbl n"
  by (simp add: settled_def list_ex_iff list_all_iff)

lemma settled_cong_derived:
  "map derived tbl = map derived tbl' \<Longrightarrow> settled tbl n = settled tbl' n"
  by (metis settled_derived)

lemma settled_same_row:
  assumes "keyOf n' = keyOf n" "valuesOf n' = valuesOf n"
  shows "settled tbl n' = settled tbl n"
proof -
  from assms(1) have "channel_id n' = channel_id n" "daypart_id n' = daypart_id n"
    by (simp_all add: keyOf_def)
  with assms have "sameKPIKey n' = sameKPIKey n"
    by (intro ext) (simp add: sameKPIKey_keyOf)
  with assms(2) show ?thesis by (simp add: settled_def)
qed

lemma derived_conflictUpdate:
  assumes "valuesOf old = valuesOf n"
  shows "derived (conflictUpdate n old) = derived old"
proof -
  from assms have "revenue n = revenue old" "cogs n = cogs old" "gross_margin n = gross_margin old"
    "covers n = covers old" "avg_check n = avg_check old" "discounts n = discounts old"
    "comps n = comps old"
    by (simp_all add: valuesOf_def)
  then show ?thesis by (simp add: derived_def conflictUpdate_def)
qed

lemma upsertKPI_stable:
  assumes "settled tbl n"
  shows "map derived (upsertKPI tbl n) = map derived tbl"
proof -
  from assms have ex: "list_ex (sameKPIKey n) tbl"
    and all: "\<forall>r\<in>set tbl. sameKPIKey n r \<longrightarrow> valuesOf r = valuesOf n"
    by (simp_all add: settled_def list_all_iff)
  have "\<forall>r\<in>set tbl. derived (if sameKPIKey n r then conflictUpdate n r else r) = derived r"
    using all by (simp add: derived_conflictUpdate)
  then show ?thesis unfolding upsertKPI_hit [OF ex] by simp
qed

lemma foldl_upsertKPI_stable:
  assumes "\<forall>n\<in>set news. settled tbl n"
  shows "map derived (foldl upsertKPI tbl news) = map derived tbl"
  using assms
proof (induction news arbitrary: tbl)
  case Nil
  then show ?case by simp
next
  case (Cons m ms)
  from Cons.prems have m: "settled tbl m" by simp
  have eq: "map derived (upsertKPI tbl m) = map derived tbl"
    by (rule upsertKPI_stable [OF m])
  have "\<forall>n\<in>set ms. settled (upsertKPI tbl m) n"
    using Cons.prems settled_cong_derived [OF eq] by simp
  from Cons.IH [OF this] eq show ?case by simp
qed


lemma keyOf_aggregateGroup:
  "keyOf (aggregateGroup now locationID d rows key) = (d, locationID, fst key, snd key)"
  by (simp add: keyOf_def aggregateGroup_def Let_def)

lemma valuesOf_aggregateGroup:
  "valuesOf (aggregateGroup now locationID d rows key)
   = valuesOf (aggregateGroup now' locationID d rows key)"
  by (simp add: valuesOf_def aggregateGroup_def Let_def)

lemma computed_rows_distinct:
  "distinct (map keyOf (map (aggregateGroup now locationID d rows) (groupKeys rows)))"
proof -
  have "map keyOf (map (aggregateGroup now locationID d rows) (groupKeys rows))
        = map (\<lambda>key. (d, locationID, fst key, snd key)) (groupKeys rows)"
    by (simp add: keyOf_aggregateGroup o_def)
  moreover have "distinct (map (\<lambda>key. (d, locationID, fst key, snd key)) (groupKeys rows))"
    by (simp add: distinct_map groupKeys_def inj_on_def prod_eq_iff)
  ultimately show ?thesis by (simp only:)
qed

lemma dayRows_sale:
  "(s, c) \<in> set (dayRows db locationID d)
   \<Longrightarrow> s \<in> set (sales db) \<and> DATE (s_occurred_at s) = d \<and> s_location_id s = locationID"
  by (auto simp: dayRows_def)

lemma computed_rows_keys:
  assumes "\<forall>s\<in>set (sales db). DATE (s_occurred_at s) = d \<and> s_location_id s = locationID
             \<longrightarrow> s_channel_id s \<noteq> None \<and> s_daypart_id s \<noteq> None"
      and "n \<in> set (map (aggregateGroup now locationID d (dayRows db locationID d))
                       (groupKeys (dayRows db locationID d)))"
  shows "channel_id n \<noteq> None \<and> daypart_id n \<noteq> None"
proof -
  from assms(2) obtain key where key: "key \<in> set (groupKeys (dayRows db locationID d))"
    and n: "n = aggregateGroup now locationID d (dayRows db locationID d) key"
    by auto
  from key obtain s c where sc: "(s, c) \<in> set (dayRows db locationID d)"
    and k: "key = (s_channel_id s, s_daypart_id s)"
    by (auto simp: groupKeys_def)
  from dayRows_sale [OF sc] assms(1) have "s_channel_id s \<noteq> None \<and> s_daypart_id s \<noteq> None"
    by blast
  with n k show ?thesis by (simp add: aggregateGroup_def Let_def)
qed


text \<open>The \<^verbatim>\<open>SET\<close> list of the labor statement, on the columns other than the timestamps.\<close>

lemma derived_laborSet: "derived (laborSet l now k) = laborSet l 0 (derived k)"
  by (simp add: derived_def laborSet_def)

lemma laborSet_twice: "laborSet l now' (laborSet l now k) = laborSet l now' k"
  by (simp add: laborSet_def)

lemma keyOf_laborSet [simp]: "keyOf (laborSet l now k) = keyOf k"
  by (simp add: keyOf_def laborSet_def)

lemma valuesOf_laborSet [simp]: "valuesOf (laborSet l now k) = valuesOf k"
  by (simp add: valuesOf_def laborSet_def)

lemma settled_map:
  assumes "\<And>r. keyOf (g r) = keyOf r" "\<And>r. valuesOf (g r) = valuesOf r"
  shows "settled (map g tbl) n = settled tbl n"
  by (simp add: settled_def list_ex_iff list_all_iff sameKPIKey_keyOf assms)

lemma refreshSales_sources:
  "sales (refreshSales now locationID d db) = sales db
   \<and> sale_lines (refreshSales now locationID d db) = sale_lines db
   \<and> menu_items (refreshSales now locationID d db) = menu_items db
   \<and> payroll_periods (refreshSales now locationID d db) = payroll_periods db"
  by (simp add: refreshSales_def Let_def)

lemma laborUpdate_sources:
  "sales (snd (laborUpdate engine now locationID d db)) = sales db
   \<and> sale_lines (snd (laborUpdate engine now locationID d db)) = sale_lines db
   \<and> menu_items (snd (laborUpdate engine now locationID d db)) = menu_items db
   \<and> payroll_periods (snd (laborUpdate engine now locationID d db)) = payroll_periods db"
  by (simp add: laborUpdate_def Let_def split: sum.splits)

lemma dayRows_cong:
  "sales db' = sales db \<Longrightarrow> sale_lines db' = sale_lines db \<Longrightarrow> menu_items db' = menu_items db
   \<Longrightarrow> dayRows db' locationID d = dayRows db locationID d"
  by (simp add: dayRows_def joinCosts_def Let_def cong: if_cong)

text \<open>What the labor statement does to the table: nothing when it is rejected, and
  otherwise the same \<^verbatim>\<open>SET\<close> list, with the same labor cost, on the rows of the day.\<close>

lemma laborUpdate_table:
  "\<exists>l. \<forall>now db. payroll_periods db = periods \<longrightarrow>
         kpi_aggregates (snd (laborUpdate engine now locationID d db))
         = (case engine of
              RejectStatement \<Rightarrow> kpi_aggregates db
            | TakeRow pick \<Rightarrow>
                map (\<lambda>k. if date k = d \<and> location_id k = locationID then laborSet l now k else k)
                  (kpi_aggregates db))"
proof (cases engine)
  case RejectStatement
  then show ?thesis by (simp add: laborUpdate_def laborSubquery_def)
next
  case (TakeRow pick)
  from laborSubquery_tolerant obtain p where
    p: "laborSubquery (TakeRow pick) periods d = Inr p" by blast
  show ?thesis
    by (rule exI [of _ "case p of Some v \<Rightarrow> v | None \<Rightarrow> 0"])
       (simp add: TakeRow laborUpdate_def p Let_def)
qed


lemma refreshDayAggregates_idempotent:
  assumes keys: "\<forall>s\<in>set (sales db). DATE (s_occurred_at s) = d \<and> s_location_id s = locationID
                   \<longrightarrow> s_channel_id s \<noteq> None \<and> s_daypart_id s \<noteq> None"
  shows "map derived (kpi_aggregates (snd (refreshDayAggregates engine now2 locationID d
                        (snd (refreshDayAggregates engine now1 locationID d db)))))
         = map derived (kpi_aggregates (snd (refreshDayAggregates engine now1 locationID d db)))"
proof -
  define rows where "rows = dayRows db locationID d"
  define news where "news = (\<lambda>now. map (aggregateGroup now locationID d rows) (groupKeys rows))"
  define dbS where "dbS = refreshSales now1 locationID d db"
  define db1 where "db1 = snd (laborUpdate engine now1 locationID d dbS)"
  define dbS2 where "dbS2 = refreshSales now2 locationID d db1"
  define db2 where "db2 = snd (laborUpdate engine now2 locationID d dbS2)"
  from laborUpdate_table [of "payroll_periods db" engine locationID d] obtain l where
    l: "\<And>now db'. payroll_periods db' = payroll_periods db \<Longrightarrow>
         kpi_aggregates (snd (laborUpdate engine now locationID d db'))
         = (case engine of
              RejectStatement \<Rightarrow> kpi_aggregates db'
            | TakeRow pick \<Rightarrow>
                map (\<lambda>k. if date k = d \<and> location_id k = locationID then laborSet l now k else k)
                  (kpi_aggregates db'))"
    by blast
  define step where
    "step = (\<lambda>now k. if date k = d \<and> location_id k = locationID then laborSet l now k else k)"
  define h where
    "h = (\<lambda>now tbl. case engine of RejectStatement \<Rightarrow> tbl | TakeRow pick \<Rightarrow> map (step now) tbl)"
  have srcS: "sales dbS = sales db" "sale_lines dbS = sale_lines db"
    "menu_items dbS = menu_items db" "payroll_periods dbS = payroll_periods db"
    using refreshSales_sources [of now1 locationID d db] by (simp_all add: dbS_def)
  have src1: "sales db1 = sales db" "sale_lines db1 = sale_lines db"
    "menu_items db1 = menu_items db" "payroll_periods db1 = payroll_periods db"
    using laborUpdate_sources [of engine now1 locationID d dbS] srcS by (simp_all add: db1_def)
  have srcS2: "payroll_periods dbS2 = payroll_periods db"
    using refreshSales_sources [of now2 locationID d db1] src1 by (simp add: dbS2_def)
  have rows1: "dayRows db1 locationID d = rows"
    unfolding rows_def by (rule dayRows_cong) (rule src1)+
  have tblS: "kpi_aggregates dbS = foldl upsertKPI (kpi_aggregates db) (news now1)"
    by (simp add: dbS_def refreshSales_def Let_def news_def rows_def)
  have tbl1: "kpi_aggregates db1 = h now1 (kpi_aggregates dbS)"
    unfolding db1_def h_def step_def by (rule l) (rule srcS)
  have tblS2: "kpi_aggregates dbS2 = foldl upsertKPI (kpi_aggregates db1) (news now2)"
    by (simp add: dbS2_def refreshSales_def Let_def news_def rows1)
  have tbl2: "kpi_aggregates db2 = h now2 (kpi_aggregates dbS2)"
    unfolding db2_def h_def step_def by (rule l) (rule srcS2)
  have step_key: "\<And>now r. keyOf (step now r) = keyOf r"
    and step_values: "\<And>now r. valuesOf (step now r) = valuesOf r"
    by (simp_all add: step_def)
  have h_settled: "\<And>now tbl n. settled (h now tbl) n = settled tbl n"
    unfolding h_def by (cases engine) (simp_all add: settled_map step_key step_values)
  have "\<forall>n\<in>set (news now1). channel_id n \<noteq> None \<and> daypart_id n \<noteq> None"
    unfolding news_def rows_def using computed_rows_keys [OF keys] by blast
  with computed_rows_distinct [of now1 locationID d rows]
  have s1: "\<forall>n\<in>set (news now1). settled (kpi_aggregates dbS) n"
    unfolding tblS news_def by (intro foldl_upsertKPI_settles)
  have s2: "\<forall>n\<in>set (news now2). settled (kpi_aggregates db1) n"
  proof
    fix n2 assume "n2 \<in> set (news now2)"
    then obtain key where key: "key \<in> set (groupKeys rows)"
      and n2: "n2 = aggregateGroup now2 locationID d rows key"
      by (auto simp: news_def)
    let ?n1 = "aggregateGroup now1 locationID d rows key"
    from key have "?n1 \<in> set (news now1)" by (simp add: news_def)
    with s1 have "settled (kpi_aggregates dbS) ?n1" by blast
    then have "settled (kpi_aggregates db1) ?n1" by (simp add: tbl1 h_settled)
    moreover have "keyOf n2 = keyOf ?n1" by (simp add: n2 keyOf_aggregateGroup)
    moreover have "valuesOf n2 = valuesOf ?n1" unfolding n2 by (rule valuesOf_aggregateGroup)
    ultimately show "settled (kpi_aggregates db1) n2"
      using settled_same_row [of n2 ?n1 "kpi_aggregates db1"] by blast
  qed
  have stable: "map derived (kpi_aggregates dbS2) = map derived (kpi_aggregates db1)"
    unfolding tblS2 by (rule foldl_upsertKPI_stable [OF s2])
  have dd: "\<And>k. date (derived k) = date k" "\<And>k. location_id (derived k) = location_id k"
    by (simp_all add: derived_def)
  have ls: "\<And>now k. date (laborSet l now k) = date k"
    "\<And>now k. location_id (laborSet l now k) = location_id k"
    by (simp_all add: laborSet_def)
  have d_step: "\<And>now k. derived (step now k) = step 0 (derived k)"
    by (simp add: step_def derived_laborSet dd)
  have step2: "\<And>k. step 0 (step 0 k) = step 0 k"
    by (simp add: step_def laborSet_twice ls)
  have "map derived (kpi_aggregates db2) = map derived (kpi_aggregates db1)"
  proof (cases engine)
    case RejectStatement
    with tbl2 stable show ?thesis by (simp add: h_def)
  next
    case (TakeRow pick)
    have "map derived (kpi_aggregates db2) = map (step 0) (map derived (kpi_aggregates dbS2))"
      by (simp add: tbl2 h_def TakeRow d_step o_def)
    also have "\<dots> = map (step 0) (map derived (kpi_aggregates db1))"
      by (simp only: stable)
    also have "\<dots> = map (step 0) (map (step 0) (map derived (kpi_aggregates dbS)))"
      by (simp add: tbl1 h_def TakeRow d_step o_def)
    also have "\<dots> = map (step 0) (map derived (kpi_aggregates dbS))"
      by (simp add: step2 o_def)
    also have "\<dots> = map derived (kpi_aggregates db1)"
      by (simp add: tbl1 h_def TakeRow d_step o_def)
    finally show ?thesis .
  qed
  then show ?thesis
    by (simp add: refreshDayAggregates_def db2_def dbS2_def db1_def dbS_def)
qed


end
